theory Spec2Isabelle
  imports Main "HOL-Library.Sublist"
begin

text \<open>
  A shallow embedding of the reservation, payment and payment-method controllers of the
  BookMi backend (Express handlers over Mongoose models). A handler is a function from the
  request and the database to a response and the new database; what a handler throws is
  a value of type \<open>error\<close>, turned into a response by the error middleware. Storage
  failures and failures of the notification store are not modelled: a write succeeds
  unless the schema's validation rejects it.
\<close>

section \<open>Shared vocabulary: identifiers, errors, responses\<close>

text \<open>
  Identifiers are compared by the handlers after \<^verbatim>\<open>toString()\<close>, so an ObjectId is
  modelled by its string. Only well-formed identifiers are modelled: for a malformed
  \<^verbatim>\<open>:id\<close> the lookup throws a \<^verbatim>\<open>CastError\<close> (answered 500 by a handler's own \<^verbatim>\<open>catch\<close>),
  a branch that is left out; an identifier that is not stored is answered 404. A value
  that may be \<^verbatim>\<open>undefined\<close> is an option; JavaScript truthiness of such a value is
  \<open>truthy\<close> (\<^verbatim>\<open>undefined\<close> and the empty string are falsy).
\<close>

type_synonym oid = string

fun truthy :: "string option \<Rightarrow> bool" where
  "truthy None = False"
| "truthy (Some s) = (s \<noteq> [])"

text \<open>\<^verbatim>\<open>String.prototype.includes\<close>: the second string occurs somewhere in the first.\<close>

fun includes_str :: "string \<Rightarrow> string \<Rightarrow> bool" where
  "includes_str [] sub = (sub = [])"
| "includes_str (c # s) sub = (prefix sub (c # s) \<or> includes_str s sub)"

text \<open>
  Modelled from the spec: the class \<^verbatim>\<open>ErrorResponse\<close> (\<^verbatim>\<open>utils/errorResponse.js\<close>) is not
  among the sources; an error response carries an HTTP status and a human-readable
  message, so \<^verbatim>\<open>new ErrorResponse(message, statusCode)\<close> is modelled by its status code, the
  field the error middleware reads. The other things a handler can throw are the
  \<^verbatim>\<open>TypeError\<close> of reading a property of \<^verbatim>\<open>undefined\<close> or \<^verbatim>\<open>null\<close>, and a Mongoose
  \<^verbatim>\<open>ValidationError\<close>.
\<close>

datatype error = ErrorResponse nat | TypeError | ValidationError

datatype 'a response = Response (res_status: nat) (res_success: bool) (res_data: "'a option")

text \<open>\<^verbatim>\<open>middleware/error.js\<close>: the status of the JSON error reply.\<close>

fun errorHandler :: "error \<Rightarrow> 'a response" where
  "errorHandler (ErrorResponse statusCode) =
     Response (if statusCode = 0 then 500 else statusCode) False None"
| "errorHandler ValidationError = Response 400 False None"
| "errorHandler TypeError = Response 500 False None"

text \<open>\<^verbatim>\<open>middleware/async.js\<close>: a rejected handler promise goes to the error middleware.\<close>

fun asyncHandler :: "(error + 'a response) \<times> 's \<Rightarrow> 'a response \<times> 's" where
  "asyncHandler (Inl e, s) = (errorHandler e, s)"
| "asyncHandler (Inr r, s) = (r, s)"

section \<open>Data model\<close>

text \<open>\<^verbatim>\<open>req.user\<close> after \<^verbatim>\<open>protect\<close>: the user document plus the token's role-scoped ids.\<close>

record user =
  user_id :: oid
  user_role :: string
  user_booker :: "oid option"
  user_artist :: "oid option"

record reservation =
  rsv_id :: oid
  rsv_booker :: oid
  artistId :: oid
  rsv_status :: string
  paymentStatus :: string
  rsv_transactionId :: string

record 'n payment =
  pay_id :: oid
  pay_reservation :: oid
  payer :: oid
  payee :: oid
  amount :: 'n
  serviceFee :: 'n
  totalAmount :: 'n
  paymentType :: string
  pay_paymentMethod :: string
  pay_status :: "string option"
  pay_transactionId :: string
  reference :: string

record paymentMethod =
  pm_id :: oid
  pm_user :: oid
  userModel :: string
  pm_type :: string
  pm_name :: string
  isDefault :: bool
  createdAt :: nat

record notification =
  recipient :: oid
  recipientModel :: string
  sender :: oid
  senderModel :: string
  relatedId :: oid
  ntf_type :: string
  ntf_previousStatus :: "string option"

text \<open>
  The database: one list per collection, in storage order. \<open>bookers\<close> and \<open>artists\<close>
  hold the ids of the existing profile documents, which is all \<^verbatim>\<open>populate\<close> needs.
\<close>

record 'n db =
  reservations :: "reservation list"
  bookers :: "oid list"
  artists :: "oid list"
  payments :: "'n payment list"
  paymentMethods :: "paymentMethod list"
  notifications :: "notification list"

text \<open>
  A request: the authenticated principal, the URL, the \<^verbatim>\<open>:id\<close> parameter and the body
  fields the handlers destructure. A numeric body field is \<open>Some v\<close> when the schema's
  Number cast accepts the value, \<open>v\<close> being the Number it is cast to, which is also what
  \<^verbatim>\<open>Number(x)\<close> gives; it is \<open>None\<close> when the cast rejects it (missing, \<^verbatim>\<open>null\<close>, empty or
  not numeric), and then the document is rejected whatever is computed from the field.
  The carrier \<open>'n\<close> of the Numbers is left open.
\<close>

record 'n request =
  user :: "user option"
  originalUrl :: string
  params_id :: oid
  body_status :: "string option"
  body_paymentStatus :: "string option"
  body_transactionId :: "string option"
  body_reservationId :: oid
  body_amount :: "'n option"
  body_serviceFee :: "'n option"
  body_totalAmount :: "'n option"
  body_paymentMethod :: "string option"
  body_paymentType :: "string option"
  body_paymentMethodId :: "oid option"
  body_paymentId :: "oid option"
  body_type :: "string option"
  body_name :: "string option"

text \<open>What the environment supplies to a request: fresh ids, the clock, random strings.\<close>

record env =
  newId :: oid
  now :: nat
  randomTransactionId :: string
  randomReference :: string

subsection \<open>Collections\<close>

definition findById :: "('a \<Rightarrow> oid) \<Rightarrow> 'a list \<Rightarrow> oid \<Rightarrow> 'a option" where
  "findById idf xs i = find (\<lambda>x. idf x = i) xs"

text \<open>\<^verbatim>\<open>doc.save()\<close>: the stored document with the same \<^verbatim>\<open>_id\<close> is replaced; a new one is appended.\<close>

definition save :: "('a \<Rightarrow> oid) \<Rightarrow> 'a \<Rightarrow> 'a list \<Rightarrow> 'a list" where
  "save idf d xs =
     (if \<exists>x \<in> set xs. idf x = idf d
      then map (\<lambda>x. if idf x = idf d then d else x) xs
      else xs @ [d])"

definition createNotification :: "notification \<Rightarrow> 'n db \<Rightarrow> 'n db" where
  "createNotification n s = s\<lparr>notifications := notifications s @ [n]\<rparr>"

section \<open>Notification service\<close>

text \<open>\<^verbatim>\<open>notifyReservationStatusChange\<close>: one notification to the booker, none for other statuses.\<close>

definition notifyReservationStatusChange :: "reservation \<Rightarrow> string \<Rightarrow> 'n db \<Rightarrow> 'n db" where
  "notifyReservationStatusChange r previousStatus s =
     (let type =
        (if rsv_status r = ''confirmed'' then Some ''reservation_confirmed''
         else if rsv_status r = ''completed'' then Some ''reservation_completed''
         else if rsv_status r = ''cancelled'' then Some ''reservation_cancelled''
         else None)
      in case type of
           None \<Rightarrow> s
         | Some t \<Rightarrow>
             createNotification
               \<lparr>recipient = rsv_booker r, recipientModel = ''Booker'',
                sender = artistId r, senderModel = ''Artist'',
                relatedId = rsv_id r, ntf_type = t,
                ntf_previousStatus = Some previousStatus\<rparr> s)"

text \<open>\<^verbatim>\<open>notifyPayment\<close>: one notification to the artist, then one to the booker.\<close>

definition notifyPayment :: "'n payment \<Rightarrow> reservation \<Rightarrow> string \<Rightarrow> 'n db \<Rightarrow> 'n db" where
  "notifyPayment p r action s =
     (let notificationType =
        (if action = ''confirmed'' then ''payment_confirmed''
         else if action = ''refunded'' then ''payment_refunded''
         else if action = ''failed'' then ''payment_failed''
         else ''payment_received'');
        artistNotification =
          \<lparr>recipient = artistId r, recipientModel = ''Artist'',
           sender = rsv_booker r, senderModel = ''Booker'',
           relatedId = rsv_id r, ntf_type = notificationType,
           ntf_previousStatus = None\<rparr>;
        bookerNotification =
          \<lparr>recipient = rsv_booker r, recipientModel = ''Booker'',
           sender = artistId r, senderModel = ''Artist'',
           relatedId = rsv_id r, ntf_type = notificationType,
           ntf_previousStatus = None\<rparr>
      in createNotification bookerNotification (createNotification artistNotification s))"

section \<open>Authorisation middleware\<close>

text \<open>\<^verbatim>\<open>authorize(roles)\<close>: \<open>None\<close> when the request may proceed.\<close>

definition authorize :: "string list \<Rightarrow> 'n request \<Rightarrow> error option" where
  "authorize roles req =
     (case user req of
        None \<Rightarrow> Some (ErrorResponse 401)
      | Some u \<Rightarrow>
          if user_role u = [] then Some (ErrorResponse 401)
          else if user_role u \<notin> set roles then Some (ErrorResponse 403)
          else None)"

section \<open>Reservation controller\<close>

subsection \<open>\<^verbatim>\<open>updateReservationStatus\<close>\<close>

text \<open>The flag \<^verbatim>\<open>isBooker\<close>: a booker whose token id is the reservation's booker.\<close>

definition isBooker :: "user \<Rightarrow> reservation \<Rightarrow> bool" where
  "isBooker u r =
     (if user_role u = ''booker'' \<and> truthy (user_booker u)
      then the (user_booker u) = rsv_booker r
      else False)"

text \<open>
  The flag \<^verbatim>\<open>isArtist\<close>: with an artist id in the token the ids are compared; without
  one, a URL containing \<^verbatim>\<open>/artist/\<close> is enough, and otherwise the user id is compared.
\<close>

definition isArtist :: "'n request \<Rightarrow> user \<Rightarrow> reservation \<Rightarrow> bool" where
  "isArtist req u r =
     (if user_role u = ''artist'' then
        (if truthy (user_artist u) then the (user_artist u) = artistId r
         else if includes_str (originalUrl req) ''/artist/'' then True
         else user_id u = artistId r)
      else False)"

definition updateReservationStatus :: "'n request \<Rightarrow> 'n db \<Rightarrow> reservation response \<times> 'n db" where
  "updateReservationStatus req s =
     (case user req of
        None \<Rightarrow> (Response 401 False None, s)
      | Some u \<Rightarrow>
          (case body_status req of
             None \<Rightarrow> (Response 400 False None, s)
           | Some status \<Rightarrow>
               if status = [] \<or>
                  status \<notin> set [''pending'', ''confirmed'', ''completed'', ''cancelled'']
               then (Response 400 False None, s)
               else
                 (case findById rsv_id (reservations s) (params_id req) of
                    None \<Rightarrow> (Response 404 False None, s)
                  | Some r \<Rightarrow>
                      if isBooker u r \<and> status \<noteq> ''cancelled''
                      then (Response 403 False None, s)
                      else if isArtist req u r \<and>
                              status \<notin> set [''confirmed'', ''completed'', ''cancelled'']
                      then (Response 403 False None, s)
                      else if \<not> isBooker u r \<and> \<not> isArtist req u r
                      then (Response 403 False None, s)
                      else
                        (let previousStatus = rsv_status r;
                             r' = r\<lparr>rsv_status := status\<rparr>;
                             s' = s\<lparr>reservations := save rsv_id r' (reservations s)\<rparr>;
                             s'' =
                               (if isArtist req u r
                                then notifyReservationStatusChange r' previousStatus s'
                                else if isBooker u r \<and> status = ''cancelled''
                                then createNotification
                                       \<lparr>recipient = artistId r', recipientModel = ''Artist'',
                                        sender = rsv_booker r', senderModel = ''Booker'',
                                        relatedId = rsv_id r',
                                        ntf_type = ''reservation_cancelled'',
                                        ntf_previousStatus = Some previousStatus\<rparr> s'
                                else s')
                         in (Response 200 True (Some r'), s'')))))"

subsection \<open>\<^verbatim>\<open>getReservation\<close>\<close>

text \<open>
  The reservation is read with its \<^verbatim>\<open>booker\<close> and \<^verbatim>\<open>artistId\<close> populated: a reference
  to a missing document becomes \<^verbatim>\<open>null\<close>, and reading \<^verbatim>\<open>._id\<close> of it throws inside the
  handler's \<^verbatim>\<open>try\<close>, which answers 500.
\<close>

definition populated :: "oid list \<Rightarrow> oid \<Rightarrow> oid option" where
  "populated docs i = (if i \<in> set docs then Some i else None)"

definition getReservation_isAuthorized :: "'n request \<Rightarrow> 'n db \<Rightarrow> user \<Rightarrow> reservation \<Rightarrow> error + bool" where
  "getReservation_isAuthorized req s u r =
     (let isArtistRoute = includes_str (originalUrl req) ''/artist/'';
          case1 =
            (if user_role u = ''booker'' \<and> truthy (user_booker u) then
               (case populated (bookers s) (rsv_booker r) of
                  None \<Rightarrow> Inl TypeError
                | Some reservationBookerId \<Rightarrow> Inr (the (user_booker u) = reservationBookerId))
             else Inr False)
      in case case1 of
           Inl e \<Rightarrow> Inl e
         | Inr isAuthorized \<Rightarrow>
             if user_role u = ''artist'' then
               (if isArtistRoute then Inr True
                else if truthy (user_artist u) then
                  (case populated (artists s) (artistId r) of
                     None \<Rightarrow> Inl TypeError
                   | Some reservationArtistId \<Rightarrow>
                       Inr (isAuthorized \<or> the (user_artist u) = reservationArtistId))
                else
                  (case populated (artists s) (artistId r) of
                     None \<Rightarrow> Inl TypeError
                   | Some reservationArtistId \<Rightarrow>
                       Inr (isAuthorized \<or> user_id u = reservationArtistId)))
             else Inr isAuthorized)"

definition getReservation :: "'n request \<Rightarrow> 'n db \<Rightarrow> reservation response" where
  "getReservation req s =
     (case user req of
        None \<Rightarrow> Response 401 False None
      | Some u \<Rightarrow>
          (case findById rsv_id (reservations s) (params_id req) of
             None \<Rightarrow> Response 404 False None
           | Some r \<Rightarrow>
               (case getReservation_isAuthorized req s u r of
                  Inl e \<Rightarrow> Response 500 False None
                | Inr isAuthorized \<Rightarrow>
                    if \<not> isAuthorized then Response 403 False None
                    else Response 200 True (Some r))))"

subsection \<open>\<^verbatim>\<open>updatePaymentStatus\<close>\<close>

definition updatePaymentStatus :: "'n request \<Rightarrow> 'n db \<Rightarrow> (error + reservation response) \<times> 'n db" where
  "updatePaymentStatus req s =
     (if \<not> truthy (body_paymentStatus req) \<or>
         the (body_paymentStatus req) \<notin> set [''pending'', ''paid'', ''failed'', ''refunded'']
      then (Inl (ErrorResponse 400), s)
      else
        (case findById rsv_id (reservations s) (params_id req) of
           None \<Rightarrow> (Inl (ErrorResponse 404), s)
         | Some r \<Rightarrow>
             (case user req of
                None \<Rightarrow> (Inl TypeError, s)
              | Some u \<Rightarrow>
                  (case user_booker u of
                     None \<Rightarrow> (Inl TypeError, s)
                   | Some b \<Rightarrow>
                       if rsv_booker r \<noteq> b then (Inl (ErrorResponse 403), s)
                       else
                         (let r1 = r\<lparr>paymentStatus := the (body_paymentStatus req)\<rparr>;
                              r2 = (if truthy (body_transactionId req)
                                    then r1\<lparr>rsv_transactionId := the (body_transactionId req)\<rparr>
                                    else r1)
                          in (Inr (Response 200 True (Some r2)),
                              s\<lparr>reservations := save rsv_id r2 (reservations s)\<rparr>))))))"

subsection \<open>Routes of \<^verbatim>\<open>/api/reservations\<close>\<close>

text \<open>
  \<^verbatim>\<open>router.get('/artist/:id', authorize(['artist']), getReservation)\<close>,
  \<^verbatim>\<open>router.get('/:id', authorize(['booker']), getReservation)\<close> and
  \<^verbatim>\<open>router.patch('/:id/payment', authorize(['booker']), updatePaymentStatus)\<close>,
  behind \<^verbatim>\<open>protect\<close>, with the error middleware at the end.
\<close>

definition GET_artist_id :: "'n request \<Rightarrow> 'n db \<Rightarrow> reservation response" where
  "GET_artist_id req s =
     (case authorize [''artist''] req of
        Some e \<Rightarrow> errorHandler e
      | None \<Rightarrow> getReservation req s)"

definition GET_id :: "'n request \<Rightarrow> 'n db \<Rightarrow> reservation response" where
  "GET_id req s =
     (case authorize [''booker''] req of
        Some e \<Rightarrow> errorHandler e
      | None \<Rightarrow> getReservation req s)"

definition PATCH_id_payment :: "'n request \<Rightarrow> 'n db \<Rightarrow> reservation response \<times> 'n db" where
  "PATCH_id_payment req s =
     (case authorize [''booker''] req of
        Some e \<Rightarrow> (errorHandler e, s)
      | None \<Rightarrow> asyncHandler (updatePaymentStatus req s))"

section \<open>Payment controller\<close>

text \<open>
  \<^verbatim>\<open>Number(amount) + Number(serviceFee)\<close>. The \<^verbatim>\<open>+\<close> of two Numbers is the addition of
  IEEE 754 doubles, a primitive of the language and no function of this repository: it is
  the parameter \<open>Number_add\<close>, over any carrier \<open>'n\<close> of the Number values other than
  \<^verbatim>\<open>NaN\<close>, with \<open>None\<close> for a \<^verbatim>\<open>NaN\<close> result. Nothing is assumed of it: it rounds,
  overflows to an infinity and so on as the language's addition does.
\<close>

definition Number_plus ::
  "('n \<Rightarrow> 'n \<Rightarrow> 'n option) \<Rightarrow> 'n option \<Rightarrow> 'n option \<Rightarrow> 'n option" where
  "Number_plus Number_add a b =
     (case a of
        None \<Rightarrow> None
      | Some x \<Rightarrow> (case b of None \<Rightarrow> None | Some y \<Rightarrow> Number_add x y))"

text \<open>
  \<^verbatim>\<open>Payment.create(paymentData)\<close>: the schema's validation (required numbers, the two
  enums), the generated reference and its unique index. \<open>None\<close> is the rejected promise.
  The generated \<^verbatim>\<open>_id\<close> is taken from the environment.
\<close>

definition Payment_create ::
  "env \<Rightarrow> oid \<Rightarrow> oid \<Rightarrow> oid \<Rightarrow> 'n option \<Rightarrow> 'n option \<Rightarrow> 'n option \<Rightarrow>
   string option \<Rightarrow> string \<Rightarrow> 'n payment list \<Rightarrow> 'n payment option" where
  "Payment_create e reservationId payerId payeeId amt fee totalAmt pmethod ptype ps =
     (case amt of
        None \<Rightarrow> None
      | Some a \<Rightarrow>
          (case fee of
             None \<Rightarrow> None
           | Some f \<Rightarrow>
               (case totalAmt of
                  None \<Rightarrow> None
                | Some t \<Rightarrow>
                    (case pmethod of
                       None \<Rightarrow> None
                     | Some m \<Rightarrow>
                         if m \<in> set [''credit_card'', ''mobile_money'', ''orange'', ''mtn'',
                                      ''moov'', ''wave'', ''visa'']
                            \<and> ptype \<in> set [''full'', ''advance'', ''balance'']
                            \<and> randomReference e \<notin> set (map reference ps)
                         then Some
                           \<lparr>pay_id = newId e, pay_reservation = reservationId,
                            payer = payerId, payee = payeeId,
                            amount = a, serviceFee = f, totalAmount = t,
                            paymentType = ptype, pay_paymentMethod = m,
                            pay_status = Some ''pending'', pay_transactionId = '''',
                            reference = randomReference e\<rparr>
                         else None))))"

text \<open>The stored payment method named by \<^verbatim>\<open>paymentMethodId\<close>, checked against the payer.\<close>

definition savedPaymentMethod :: "'n request \<Rightarrow> oid \<Rightarrow> 'n db \<Rightarrow> error + paymentMethod option" where
  "savedPaymentMethod req bookerId s =
     (if truthy (body_paymentMethodId req) then
        (case findById pm_id (paymentMethods s) (the (body_paymentMethodId req)) of
           None \<Rightarrow> Inl (ErrorResponse 404)
         | Some m \<Rightarrow>
             if pm_user m \<noteq> bookerId then Inl (ErrorResponse 403) else Inr (Some m))
      else Inr None)"

definition createPayment ::
  "('n \<Rightarrow> 'n \<Rightarrow> 'n option) \<Rightarrow> env \<Rightarrow> 'n request \<Rightarrow> 'n db \<Rightarrow>
   (error + 'n payment response) \<times> 'n db" where
  "createPayment Number_add e req s =
     (case findById rsv_id (reservations s) (body_reservationId req) of
        None \<Rightarrow> (Inl (ErrorResponse 404), s)
      | Some r \<Rightarrow>
          (case user req of
             None \<Rightarrow> (Inl TypeError, s)
           | Some u \<Rightarrow>
               (let bookerId = (if truthy (user_booker u) then the (user_booker u) else user_id u)
                in if rsv_booker r \<noteq> bookerId then (Inl (ErrorResponse 403), s)
                   else
                     (case savedPaymentMethod req bookerId s of
                        Inl err \<Rightarrow> (Inl err, s)
                      | Inr saved \<Rightarrow>
                          (let totalAmt = Number_plus Number_add (body_amount req) (body_serviceFee req);
                               pmethod = (case saved of
                                           Some m \<Rightarrow> Some (pm_type m)
                                         | None \<Rightarrow> body_paymentMethod req);
                               ptype = (if truthy (body_paymentType req)
                                        then the (body_paymentType req) else ''full'')
                           in case Payment_create e (body_reservationId req) bookerId (artistId r)
                                     (body_amount req) (body_serviceFee req) totalAmt pmethod ptype
                                     (payments s) of
                                None \<Rightarrow> (Inl (ErrorResponse 500), s)
                              | Some created \<Rightarrow>
                                  (let p = created
                                         \<lparr>pay_status := Some ''completed'',
                                          pay_transactionId := ''sim_'' @ randomTransactionId e\<rparr>;
                                       s1 = s\<lparr>payments := save pay_id p (payments s)\<rparr>
                                   in if pay_status p = Some ''completed'' then
                                        (let prevPaymentStatus = paymentStatus r;
                                             r1 = r\<lparr>paymentStatus :=
                                                      (if paymentType p = ''advance''
                                                       then ''partial'' else ''paid'')\<rparr>;
                                             r2 = (if rsv_status r1 = ''pending''
                                                   then r1\<lparr>rsv_status := ''confirmed''\<rparr>
                                                   else r1);
                                             r3 = r2\<lparr>rsv_transactionId := pay_transactionId p\<rparr>;
                                             s2 = s1\<lparr>reservations :=
                                                       save rsv_id r3 (reservations s1)\<rparr>;
                                             s3 = notifyPayment p r3 ''created'' s2;
                                             s4 = (if rsv_status r3 = ''confirmed''
                                                      \<and> prevPaymentStatus \<noteq> ''paid''
                                                   then notifyReservationStatusChange r3 ''pending'' s3
                                                   else s3)
                                         in (Inr (Response 201 True (Some p)), s4))
                                      else (Inr (Response 201 True (Some p)), s1)))))))"

text \<open>
  \<^verbatim>\<open>paymentWebhook\<close>: unauthenticated; the payment is saved with the status of the body
  (the schema's enum is validated on save), then a \<^verbatim>\<open>completed\<close> status updates the
  reservation and notifies, whatever the payment's status was before.
\<close>

definition paymentWebhook :: "'n request \<Rightarrow> 'n db \<Rightarrow> (error + 'n payment response) \<times> 'n db" where
  "paymentWebhook req s =
     (case findById pay_id (payments s)
             (if truthy (body_paymentId req) then the (body_paymentId req) else params_id req) of
        None \<Rightarrow> (Inr (Response 404 False None), s)
      | Some p \<Rightarrow>
          (let p1 = p\<lparr>pay_status := body_status req\<rparr>;
               p2 = (if truthy (body_transactionId req)
                     then p1\<lparr>pay_transactionId := the (body_transactionId req)\<rparr>
                     else p1)
           in if (case pay_status p2 of
                    None \<Rightarrow> False
                  | Some st \<Rightarrow> st \<notin> set [''pending'', ''processing'', ''completed'',
                                            ''failed'', ''refunded''])
              then (Inl ValidationError, s)
              else
                (let s1 = s\<lparr>payments := save pay_id p2 (payments s)\<rparr>
                 in if body_status req = Some ''completed'' then
                      (case findById rsv_id (reservations s1) (pay_reservation p2) of
                         None \<Rightarrow> (Inr (Response 200 True (Some p2)), s1)
                       | Some r \<Rightarrow>
                           (let r1 = r\<lparr>paymentStatus :=
                                        (if paymentType p2 = ''advance''
                                         then ''partial'' else ''paid'')\<rparr>;
                                r2 = (if rsv_status r1 = ''pending''
                                      then r1\<lparr>rsv_status := ''confirmed''\<rparr> else r1);
                                s2 = (if rsv_status r1 = ''pending''
                                      then notifyReservationStatusChange r2 (rsv_status r1) s1
                                      else s1);
                                s3 = s2\<lparr>reservations := save rsv_id r2 (reservations s2)\<rparr>;
                                s4 = notifyPayment p2 r2 ''confirmed'' s3
                            in (Inr (Response 200 True (Some p2)), s4)))
                    else (Inr (Response 200 True (Some p2)), s1))))"

section \<open>Payment methods\<close>

subsection \<open>The schema's save hooks\<close>

definition sameOwner :: "paymentMethod \<Rightarrow> paymentMethod \<Rightarrow> bool" where
  "sameOwner m x \<longleftrightarrow> pm_user x = pm_user m \<and> userModel x = userModel m"

text \<open>The \<^verbatim>\<open>updateMany\<close> of the pre-save hook.\<close>

definition clearOtherDefaults :: "paymentMethod \<Rightarrow> paymentMethod list \<Rightarrow> paymentMethod list" where
  "clearOtherDefaults m ms =
     map (\<lambda>x. if sameOwner m x \<and> pm_id x \<noteq> pm_id m \<and> isDefault x
               then x\<lparr>isDefault := False\<rparr> else x) ms"

definition defaultCount :: "paymentMethod \<Rightarrow> paymentMethod list \<Rightarrow> nat" where
  "defaultCount m ms = length (filter (\<lambda>x. sameOwner m x \<and> isDefault x) ms)"

text \<open>\<^verbatim>\<open>findOne(...).sort('createdAt')\<close>: the earliest document, the first stored on a tie.\<close>

fun earliest :: "paymentMethod list \<Rightarrow> paymentMethod option" where
  "earliest [] = None"
| "earliest (x # xs) =
     (case earliest xs of
        None \<Rightarrow> Some x
      | Some y \<Rightarrow> if createdAt x \<le> createdAt y then Some x else Some y)"

text \<open>
  \<^verbatim>\<open>save()\<close> on a payment method: the pre-save hook, the write, and the post-save hook,
  which saves the promoted document in turn.
\<close>

function PaymentMethod_save :: "paymentMethod \<Rightarrow> paymentMethod list \<Rightarrow> paymentMethod list" where
  "PaymentMethod_save m ms =
     (if defaultCount m (save pm_id m (if isDefault m then clearOtherDefaults m ms else ms)) = 0
      then
        (case earliest (filter (sameOwner m)
                 (save pm_id m (if isDefault m then clearOtherDefaults m ms else ms))) of
           None \<Rightarrow> save pm_id m (if isDefault m then clearOtherDefaults m ms else ms)
         | Some firstPaymentMethod \<Rightarrow>
             PaymentMethod_save (firstPaymentMethod\<lparr>isDefault := True\<rparr>)
               (save pm_id m (if isDefault m then clearOtherDefaults m ms else ms)))
      else save pm_id m (if isDefault m then clearOtherDefaults m ms else ms))"
  by pat_completeness auto

termination PaymentMethod_save
proof (relation "measure (\<lambda>(m, ms). if isDefault m then 0 else 1)")
  show "wf (measure (\<lambda>(m, ms). if isDefault m then 0 else (1::nat)))"
    by simp
next
  fix m :: paymentMethod and ms :: "paymentMethod list" and firstPaymentMethod :: paymentMethod
  define stored where "stored = save pm_id m (if isDefault m then clearOtherDefaults m ms else ms)"
  assume "defaultCount m (save pm_id m (if isDefault m then clearOtherDefaults m ms else ms)) = 0"
  then have "filter (\<lambda>x. sameOwner m x \<and> isDefault x) stored = []"
    unfolding defaultCount_def stored_def by (rule length_0_conv [THEN iffD1])
  moreover have "m \<in> set stored"
    unfolding stored_def save_def by auto
  ultimately have "\<not> (sameOwner m m \<and> isDefault m)"
    unfolding filter_empty_conv by blast
  then have "\<not> isDefault m"
    by (simp add: sameOwner_def)
  then show "((firstPaymentMethod\<lparr>isDefault := True\<rparr>,
               save pm_id m (if isDefault m then clearOtherDefaults m ms else ms)), (m, ms))
               \<in> measure (\<lambda>(m, ms). if isDefault m then 0 else 1)"
    by simp
qed

subsection \<open>Payment-method controller\<close>

text \<open>The \<^verbatim>\<open>userId\<close> a handler derives from the principal; \<^verbatim>\<open>undefined\<close> for other roles.\<close>

definition requesterId :: "user \<Rightarrow> oid option" where
  "requesterId u =
     (if user_role u = ''booker''
      then Some (if truthy (user_booker u) then the (user_booker u) else user_id u)
      else if user_role u = ''artist''
      then Some (if truthy (user_artist u) then the (user_artist u) else user_id u)
      else None)"

text \<open>\<^verbatim>\<open>countDocuments({user, userModel})\<close>.\<close>

definition countOwned :: "oid \<Rightarrow> string \<Rightarrow> paymentMethod list \<Rightarrow> nat" where
  "countOwned userId model ms =
     length (filter (\<lambda>x. pm_user x = userId \<and> userModel x = model) ms)"

text \<open>\<^verbatim>\<open>doc.deleteOne()\<close>: the stored document with that \<^verbatim>\<open>_id\<close> is removed; no save hook runs.\<close>

fun deleteOne :: "('a \<Rightarrow> oid) \<Rightarrow> oid \<Rightarrow> 'a list \<Rightarrow> 'a list" where
  "deleteOne idf i [] = []"
| "deleteOne idf i (x # xs) = (if idf x = i then xs else x # deleteOne idf i xs)"

text \<open>
  \<^verbatim>\<open>PaymentMethod.create\<close> validates the schema first (\<^verbatim>\<open>type\<close> required and in its enum,
  \<^verbatim>\<open>name\<close> required) and then saves; the new \<^verbatim>\<open>_id\<close> and \<^verbatim>\<open>createdAt\<close> come from the
  environment.
\<close>

definition addPaymentMethod ::
  "env \<Rightarrow> 'n request \<Rightarrow> 'n db \<Rightarrow> (error + paymentMethod response) \<times> 'n db" where
  "addPaymentMethod e req s =
     (case user req of
        None \<Rightarrow> (Inl TypeError, s)
      | Some u \<Rightarrow>
          (case requesterId u of
             None \<Rightarrow> (Inr (Response 400 False None), s)
           | Some userId \<Rightarrow>
               (let model = (if user_role u = ''booker'' then ''Booker'' else ''Artist'');
                    existingCount = countOwned userId model (paymentMethods s)
                in if truthy (body_type req)
                      \<and> the (body_type req) \<in> set [''credit_card'', ''mobile_money'', ''orange'',
                                                       ''mtn'', ''moov'', ''wave'', ''visa'']
                      \<and> truthy (body_name req)
                   then
                     (let m = \<lparr>pm_id = newId e, pm_user = userId, userModel = model,
                               pm_type = the (body_type req), pm_name = the (body_name req),
                               isDefault = (existingCount = 0), createdAt = now e\<rparr>
                      in (Inr (Response 201 True (Some m)),
                          s\<lparr>paymentMethods := PaymentMethod_save m (paymentMethods s)\<rparr>))
                   else (Inl ValidationError, s))))"

definition updatePaymentMethod :: "'n request \<Rightarrow> 'n db \<Rightarrow> (error + paymentMethod response) \<times> 'n db" where
  "updatePaymentMethod req s =
     (case findById pm_id (paymentMethods s) (params_id req) of
        None \<Rightarrow> (Inr (Response 404 False None), s)
      | Some m \<Rightarrow>
          (case user req of
             None \<Rightarrow> (Inl TypeError, s)
           | Some u \<Rightarrow>
               (case requesterId u of
                  None \<Rightarrow> (Inl TypeError, s)
                | Some userId \<Rightarrow>
                    if pm_user m \<noteq> userId then (Inr (Response 403 False None), s)
                    else
                      (let m' = (if truthy (body_name req)
                                 then m\<lparr>pm_name := the (body_name req)\<rparr> else m)
                       in (Inr (Response 200 True (Some m')),
                           s\<lparr>paymentMethods := PaymentMethod_save m' (paymentMethods s)\<rparr>)))))"

definition setDefaultPaymentMethod :: "'n request \<Rightarrow> 'n db \<Rightarrow> (error + paymentMethod response) \<times> 'n db" where
  "setDefaultPaymentMethod req s =
     (case findById pm_id (paymentMethods s) (params_id req) of
        None \<Rightarrow> (Inr (Response 404 False None), s)
      | Some m \<Rightarrow>
          (case user req of
             None \<Rightarrow> (Inl TypeError, s)
           | Some u \<Rightarrow>
               (case requesterId u of
                  None \<Rightarrow> (Inl TypeError, s)
                | Some userId \<Rightarrow>
                    if pm_user m \<noteq> userId then (Inr (Response 403 False None), s)
                    else
                      (let m' = m\<lparr>isDefault := True\<rparr>
                       in (Inr (Response 200 True (Some m')),
                           s\<lparr>paymentMethods := PaymentMethod_save m' (paymentMethods s)\<rparr>)))))"

definition deletePaymentMethod :: "'n request \<Rightarrow> 'n db \<Rightarrow> (error + paymentMethod response) \<times> 'n db" where
  "deletePaymentMethod req s =
     (case findById pm_id (paymentMethods s) (params_id req) of
        None \<Rightarrow> (Inr (Response 404 False None), s)
      | Some m \<Rightarrow>
          (case user req of
             None \<Rightarrow> (Inl TypeError, s)
           | Some u \<Rightarrow>
               (case requesterId u of
                  None \<Rightarrow> (Inl TypeError, s)
                | Some userId \<Rightarrow>
                    if pm_user m \<noteq> userId then (Inr (Response 403 False None), s)
                    else if isDefault m then
                      (if countOwned userId (userModel m) (paymentMethods s) > 1
                       then (Inr (Response 200 True None),
                             s\<lparr>paymentMethods := deleteOne pm_id (pm_id m) (paymentMethods s)\<rparr>)
                       else (Inr (Response 400 False None), s))
                    else (Inr (Response 200 True None),
                          s\<lparr>paymentMethods := deleteOne pm_id (pm_id m) (paymentMethods s)\<rparr>))))"

section \<open>Example data\<close>

definition reservation_r1 :: reservation where
  "reservation_r1 =
     \<lparr>rsv_id = ''r1'', rsv_booker = ''b1'', artistId = ''a1'', rsv_status = ''pending'',
      paymentStatus = ''pending'', rsv_transactionId = ''''\<rparr>"

definition reservation_r2 :: reservation where
  "reservation_r2 =
     \<lparr>rsv_id = ''r2'', rsv_booker = ''b1'', artistId = ''a1'', rsv_status = ''cancelled'',
      paymentStatus = ''pending'', rsv_transactionId = ''''\<rparr>"

definition db_empty :: "int db" where
  "db_empty =
     \<lparr>reservations = [], bookers = [''b1'', ''b2''], artists = [''a1'', ''a2''],
      payments = [], paymentMethods = [], notifications = []\<rparr>"

definition db_r1 :: "int db" where
  "db_r1 = db_empty\<lparr>reservations := [reservation_r1]\<rparr>"

definition db_r2 :: "int db" where
  "db_r2 = db_empty\<lparr>reservations := [reservation_r2]\<rparr>"

definition booker_b1 :: user where
  "booker_b1 =
     \<lparr>user_id = ''b1'', user_role = ''booker'', user_booker = Some ''b1'', user_artist = None\<rparr>"

definition booker_b2 :: user where
  "booker_b2 =
     \<lparr>user_id = ''b2'', user_role = ''booker'', user_booker = Some ''b2'', user_artist = None\<rparr>"

definition booker_without_id :: user where
  "booker_without_id =
     \<lparr>user_id = ''b1'', user_role = ''booker'', user_booker = None, user_artist = None\<rparr>"

definition artist_a1 :: user where
  "artist_a1 =
     \<lparr>user_id = ''a1'', user_role = ''artist'', user_booker = None, user_artist = Some ''a1''\<rparr>"

definition artist_a2 :: user where
  "artist_a2 =
     \<lparr>user_id = ''a2'', user_role = ''artist'', user_booker = None, user_artist = Some ''a2''\<rparr>"

definition request_r1 :: "int request" where
  "request_r1 =
     \<lparr>user = None, originalUrl = ''/api/reservations/r1'', params_id = ''r1'',
      body_status = None, body_paymentStatus = None, body_transactionId = None,
      body_reservationId = ''r1'', body_amount = None, body_serviceFee = None,
      body_totalAmount = None, body_paymentMethod = None, body_paymentType = None,
      body_paymentMethodId = None, body_paymentId = None, body_type = None, body_name = None\<rparr>"

definition env_1 :: env where
  "env_1 = \<lparr>newId = ''x1'', now = 1, randomTransactionId = ''k3j9'',
            randomReference = ''PAY-20250508-10001''\<rparr>"

definition env_2 :: env where
  "env_2 = \<lparr>newId = ''x2'', now = 2, randomTransactionId = ''p7q2'',
            randomReference = ''PAY-20250508-10002''\<rparr>"

subsection \<open>An addition of doubles, for the examples\<close>

text \<open>
  The examples take the whole numbers as carrier and, as \<open>Number_add\<close>, the addition of
  doubles on the whole Numbers whose sum is below \<open>2 ^ 1024\<close> in absolute value: the exact
  sum, rounded to 53 significant bits, ties to the even significand. It is exact below
  \<open>2 ^ 53\<close>, and \<open>2 ^ 53 + 1\<close> is \<open>2 ^ 53\<close>.
\<close>

function halvings :: "nat \<Rightarrow> nat" where
  "halvings a = (if a < 2 ^ 53 then 0 else Suc (halvings (a div 2)))"
  by pat_completeness auto
termination
  by (relation "measure id") auto

declare halvings.simps [simp del]

definition round53 :: "int \<Rightarrow> int" where
  "round53 n =
     (let a = nat \<bar>n\<bar>; k = halvings a; q = a div 2 ^ k; r = a mod 2 ^ k;
          q' = (if 2 * r > 2 ^ k \<or> (2 * r = 2 ^ k \<and> odd q) then q + 1 else q)
      in if k = 0 then n else sgn n * int (q' * 2 ^ k))"

definition double_add :: "int \<Rightarrow> int \<Rightarrow> int option" where
  "double_add x y = Some (round53 (x + y))"

definition request_pay :: "int request" where
  "request_pay =
     request_r1\<lparr>user := Some booker_b1, originalUrl := ''/api/payments'', params_id := [],
       body_amount := Some 500, body_serviceFee := Some 25, body_totalAmount := Some 1,
       body_paymentMethod := Some ''mtn'', body_paymentType := Some ''advance''\<rparr>"

definition payment_x1 :: "int payment" where
  "payment_x1 =
     \<lparr>pay_id = ''x1'', pay_reservation = ''r1'', payer = ''b1'', payee = ''a1'',
      amount = 500, serviceFee = 25, totalAmount = 525, paymentType = ''advance'',
      pay_paymentMethod = ''mtn'', pay_status = Some ''completed'',
      pay_transactionId = ''sim_k3j9'', reference = ''PAY-20250508-10001''\<rparr>"

definition request_pay_large :: "int request" where
  "request_pay_large =
     request_pay\<lparr>body_amount := Some 9007199254740992, body_serviceFee := Some 1\<rparr>"

definition payment_large :: "int payment" where
  "payment_large =
     \<lparr>pay_id = ''x1'', pay_reservation = ''r1'', payer = ''b1'', payee = ''a1'',
      amount = 9007199254740992, serviceFee = 1, totalAmount = 9007199254740992,
      paymentType = ''advance'', pay_paymentMethod = ''mtn'', pay_status = Some ''completed'',
      pay_transactionId = ''sim_k3j9'', reference = ''PAY-20250508-10001''\<rparr>"

definition request_webhook :: "int request" where
  "request_webhook =
     request_r1\<lparr>originalUrl := ''/api/payments/x1/webhook'', params_id := ''x1'',
       body_status := Some ''completed''\<rparr>"

definition db_paid :: "int db" where
  "db_paid = snd (createPayment double_add env_1 request_pay db_r1)"

definition request_add :: "int request" where
  "request_add =
     request_r1\<lparr>user := Some booker_b1, originalUrl := ''/api/payment-methods'', params_id := [],
       body_type := Some ''mtn'', body_name := Some ''MTN Money''\<rparr>"

definition method_x1 :: paymentMethod where
  "method_x1 =
     \<lparr>pm_id = ''x1'', pm_user = ''b1'', userModel = ''Booker'', pm_type = ''mtn'',
      pm_name = ''MTN Money'', isDefault = True, createdAt = 1\<rparr>"

definition method_x2 :: paymentMethod where
  "method_x2 =
     \<lparr>pm_id = ''x2'', pm_user = ''b1'', userModel = ''Booker'', pm_type = ''mtn'',
      pm_name = ''MTN Money'', isDefault = False, createdAt = 2\<rparr>"

text \<open>Booker b1 adds a first method, adds a second one, then deletes the first.\<close>

definition db_one_method :: "int db" where
  "db_one_method = snd (addPaymentMethod env_1 request_add db_empty)"

definition db_two_methods :: "int db" where
  "db_two_methods = snd (addPaymentMethod env_2 request_add db_one_method)"

definition db_default_deleted :: "int db" where
  "db_default_deleted =
     snd (deletePaymentMethod (request_add\<lparr>params_id := ''x1''\<rparr>) db_two_methods)"

lemmas example_defs =
  reservation_r1_def reservation_r2_def db_empty_def db_r1_def db_r2_def booker_b1_def
  booker_without_id_def artist_a1_def artist_a2_def request_r1_def env_1_def env_2_def

section \<open>Facts about the collections\<close>

lemma find_replace:
  "\<exists>x \<in> set xs. idf x = idf d \<Longrightarrow>
   find (\<lambda>x. idf x = idf d) (map (\<lambda>x. if idf x = idf d then d else x) xs) = Some d"
  by (induction xs) auto

lemma find_append_new:
  "\<forall>x \<in> set xs. idf x \<noteq> idf d \<Longrightarrow> find (\<lambda>x. idf x = idf d) (xs @ [d]) = Some d"
  by (induction xs) auto

lemma findById_save: "findById idf (save idf d xs) (idf d) = Some d"
  unfolding findById_def save_def
  by (cases "\<exists>x \<in> set xs. idf x = idf d") (simp_all add: find_replace find_append_new)

lemma findById_Some_id: "findById idf xs i = Some r \<Longrightarrow> idf r = i"
  by (auto simp: findById_def find_Some_iff)

lemma reservations_createNotification [simp]:
  "reservations (createNotification n s) = reservations s"
  by (simp add: createNotification_def)

lemma reservations_notifyReservationStatusChange [simp]:
  "reservations (notifyReservationStatusChange r p s) = reservations s"
  by (simp add: notifyReservationStatusChange_def Let_def split: option.splits)

lemma isBooker_not_isArtist: "isBooker u r \<Longrightarrow> \<not> isArtist req u r"
  by (auto simp: isBooker_def isArtist_def split: if_splits)

section \<open>Reservation status updates\<close>

text \<open>
  C2. On an existing reservation, a status update by the owning booker to any of the
  four statuses other than \<^verbatim>\<open>cancelled\<close> is answered 403 and nothing is written; a status
  update by the assigned artist to a status outside confirmed, completed and cancelled
  (that is, \<^verbatim>\<open>pending\<close>) is answered 403 and nothing is written. The same holds for
  every principal of role booker, respectively artist, whatever the handler's flags are.
\<close>

theorem updateReservationStatus_forbidden_targets:
  assumes "user req = Some u"
    and "findById rsv_id (reservations s) (params_id req) = Some r"
    and "body_status req = Some status"
    and "status \<in> set [''pending'', ''confirmed'', ''completed'', ''cancelled'']"
  shows "(isBooker u r \<and> status \<noteq> ''cancelled'' \<longrightarrow>
            updateReservationStatus req s = (Response 403 False None, s))
       \<and> (isArtist req u r \<and> status \<notin> set [''confirmed'', ''completed'', ''cancelled''] \<longrightarrow>
            updateReservationStatus req s = (Response 403 False None, s))
       \<and> (user_role u = ''booker'' \<and> status \<noteq> ''cancelled'' \<longrightarrow>
            updateReservationStatus req s = (Response 403 False None, s))
       \<and> (user_role u = ''artist'' \<and> status \<notin> set [''confirmed'', ''completed'', ''cancelled''] \<longrightarrow>
            updateReservationStatus req s = (Response 403 False None, s))"
proof -
  have flagged: "updateReservationStatus req s = (Response 403 False None, s)"
    if "(isBooker u r \<and> status \<noteq> ''cancelled'')
        \<or> (isArtist req u r \<and> status \<notin> set [''confirmed'', ''completed'', ''cancelled''])
        \<or> (\<not> isBooker u r \<and> \<not> isArtist req u r)"
    using that assms by (auto simp: updateReservationStatus_def)
  have booker: "\<not> isArtist req u r" if "user_role u = ''booker''"
    using that by (simp add: isArtist_def)
  have artist: "\<not> isBooker u r" if "user_role u = ''artist''"
    using that by (simp add: isBooker_def)
  show ?thesis
    using flagged booker artist by blast
qed

theorem updateReservationStatus_forbidden_targets_witness:
  "updateReservationStatus
     (request_r1\<lparr>user := Some booker_b1, body_status := Some ''confirmed''\<rparr>) db_r1
     = (Response 403 False None, db_r1)
   \<and> updateReservationStatus
     (request_r1\<lparr>user := Some artist_a1, originalUrl := ''/api/reservations/artist/r1/status'',
                 body_status := Some ''pending''\<rparr>) db_r1
     = (Response 403 False None, db_r1)"
  using updateReservationStatus_forbidden_targets
          [of "request_r1\<lparr>user := Some booker_b1, body_status := Some ''confirmed''\<rparr>"
              booker_b1 db_r1 reservation_r1 "''confirmed''"]
        updateReservationStatus_forbidden_targets
          [of "request_r1\<lparr>user := Some artist_a1,
                 originalUrl := ''/api/reservations/artist/r1/status'',
                 body_status := Some ''pending''\<rparr>"
              artist_a1 db_r1 reservation_r1 "''pending''"]
  by (simp add: example_defs findById_def isBooker_def isArtist_def)

text \<open>
  C3, as claimed: completed and cancelled are terminal. The handler does not read the
  current status: the assigned artist moves a cancelled reservation to confirmed.
\<close>

theorem terminal_states_counterexample:
  "rsv_status reservation_r2 = ''cancelled''
   \<and> findById rsv_id (reservations db_r2) ''r2'' = Some reservation_r2
   \<and> fst (updateReservationStatus
        (request_r1\<lparr>user := Some artist_a1, params_id := ''r2'',
                    originalUrl := ''/api/reservations/artist/r2/status'',
                    body_status := Some ''confirmed''\<rparr>) db_r2)
       = Response 200 True (Some (reservation_r2\<lparr>rsv_status := ''confirmed''\<rparr>))
   \<and> reservations (snd (updateReservationStatus
        (request_r1\<lparr>user := Some artist_a1, params_id := ''r2'',
                    originalUrl := ''/api/reservations/artist/r2/status'',
                    body_status := Some ''confirmed''\<rparr>) db_r2))
       = [reservation_r2\<lparr>rsv_status := ''confirmed''\<rparr>]"
  by (simp add: example_defs updateReservationStatus_def findById_def
        isBooker_def isArtist_def save_def Let_def)

text \<open>
  C3, amended. A status update whose actor and target are allowed (the owning booker to
  \<^verbatim>\<open>cancelled\<close>; the assigned artist to confirmed, completed or cancelled) succeeds from
  every current status of the reservation, completed and cancelled included, and the
  target status is stored.
\<close>

theorem updateReservationStatus_ignores_current_status:
  assumes "user req = Some u"
    and "findById rsv_id (reservations s) (params_id req) = Some r"
    and "body_status req = Some status"
    and "(isBooker u r \<and> status = ''cancelled'')
         \<or> (isArtist req u r \<and> status \<in> set [''confirmed'', ''completed'', ''cancelled''])"
  shows "fst (updateReservationStatus req s)
           = Response 200 True (Some (r\<lparr>rsv_status := status\<rparr>))
       \<and> findById rsv_id (reservations (snd (updateReservationStatus req s))) (params_id req)
           = Some (r\<lparr>rsv_status := status\<rparr>)"
proof -
  have id: "rsv_id r = params_id req"
    using assms(2) by (rule findById_Some_id)
  have valid:
    "status \<noteq> [] \<and> status \<in> set [''pending'', ''confirmed'', ''completed'', ''cancelled'']"
    using assms(4) by auto
  have no403: "\<not> (isBooker u r \<and> status \<noteq> ''cancelled'')"
       "\<not> (isArtist req u r \<and> status \<notin> set [''confirmed'', ''completed'', ''cancelled''])"
       "\<not> (\<not> isBooker u r \<and> \<not> isArtist req u r)"
    using assms(4) isBooker_not_isArtist [of u r req] by auto
  have saved:
    "findById rsv_id (save rsv_id (r\<lparr>rsv_status := status\<rparr>) (reservations s)) (params_id req)
       = Some (r\<lparr>rsv_status := status\<rparr>)"
    using findById_save [of rsv_id "r\<lparr>rsv_status := status\<rparr>" "reservations s"] id by simp
  show ?thesis
    using assms(1,2,3) valid no403 saved
    by (auto simp: updateReservationStatus_def Let_def)
qed

theorem updateReservationStatus_ignores_current_status_witness:
  "rsv_status reservation_r2 = ''cancelled''
   \<and> findById rsv_id (reservations (snd (updateReservationStatus
        (request_r1\<lparr>user := Some artist_a1, params_id := ''r2'',
                    originalUrl := ''/api/reservations/artist/r2/status'',
                    body_status := Some ''completed''\<rparr>) db_r2))) ''r2''
       = Some (reservation_r2\<lparr>rsv_status := ''completed''\<rparr>)"
  using updateReservationStatus_ignores_current_status
          [of "request_r1\<lparr>user := Some artist_a1, params_id := ''r2'',
                    originalUrl := ''/api/reservations/artist/r2/status'',
                    body_status := Some ''completed''\<rparr>"
              artist_a1 db_r2 reservation_r2 "''completed''"]
  by (simp add: example_defs findById_def isBooker_def isArtist_def)

section \<open>Reading a reservation\<close>

text \<open>
  C4. A principal that is neither the owning booker nor the assigned artist must be
  answered 403 on every route. On \<^verbatim>\<open>GET /api/reservations/artist/:id\<close> the handler
  authorises every artist before any id is compared: artist a2 reads the reservation of
  artist a1. (On \<^verbatim>\<open>GET /api/reservations/:id\<close> an artist is stopped by \<^verbatim>\<open>authorize\<close>.)
\<close>

theorem getReservation_artist_route_leak:
  "user_artist artist_a2 \<noteq> Some (artistId reservation_r1)
   \<and> user_id artist_a2 \<noteq> artistId reservation_r1
   \<and> GET_artist_id
       (request_r1\<lparr>user := Some artist_a2, originalUrl := ''/api/reservations/artist/r1''\<rparr>) db_r1
     = Response 200 True (Some reservation_r1)
   \<and> GET_id (request_r1\<lparr>user := Some artist_a2\<rparr>) db_r1 = Response 403 False None"
  by (simp add: example_defs GET_artist_id_def GET_id_def authorize_def getReservation_def
        getReservation_isAuthorized_def findById_def populated_def Let_def)

section \<open>Direct payment-status updates\<close>

text \<open>
  C9. \<^verbatim>\<open>PATCH /reservations/:id/payment\<close> accepts exactly pending, paid, failed and
  refunded. The validation error 400 is thrown exactly when the supplied \<^verbatim>\<open>paymentStatus\<close>
  is none of them; \<^verbatim>\<open>partial\<close> is answered 400, by the handler and on the route, and nothing
  is written. Each of the four values is accepted: for the owning booker the route answers
  200 and stores the value in the reservation; with a valid value the only other answers
  are 404 for a reservation that is not stored and 403 for another booker's.
\<close>

theorem updatePaymentStatus_accepts_exactly:
  "(fst (updatePaymentStatus req s) = Inl (ErrorResponse 400)
      \<longleftrightarrow> body_paymentStatus req \<notin> Some ` set [''pending'', ''paid'', ''failed'', ''refunded''])
   \<and> (body_paymentStatus req = Some ''partial'' \<longrightarrow>
        asyncHandler (updatePaymentStatus req s) = (Response 400 False None, s))
   \<and> (body_paymentStatus req = Some ''partial'' \<and> user req = Some u \<and> user_role u = ''booker''
        \<longrightarrow> PATCH_id_payment req s = (Response 400 False None, s))
   \<and> (body_paymentStatus req = Some v
        \<and> v \<in> set [''pending'', ''paid'', ''failed'', ''refunded'']
        \<and> user req = Some u \<and> user_role u = ''booker''
        \<and> findById rsv_id (reservations s) (params_id req) = Some r
        \<and> user_booker u = Some (rsv_booker r) \<longrightarrow>
          PATCH_id_payment req s
            = (Response 200 True
                 (Some (r\<lparr>paymentStatus := v,
                          rsv_transactionId :=
                            (if truthy (body_transactionId req) then the (body_transactionId req)
                             else rsv_transactionId r)\<rparr>)),
               s\<lparr>reservations :=
                   save rsv_id
                     (r\<lparr>paymentStatus := v,
                        rsv_transactionId :=
                          (if truthy (body_transactionId req) then the (body_transactionId req)
                           else rsv_transactionId r)\<rparr>)
                     (reservations s)\<rparr>)
        \<and> (\<exists>r'. findById rsv_id (reservations (snd (PATCH_id_payment req s))) (params_id req)
                    = Some r'
                \<and> paymentStatus r' = v))
   \<and> (body_paymentStatus req \<in> Some ` set [''pending'', ''paid'', ''failed'', ''refunded'']
        \<and> findById rsv_id (reservations s) (params_id req) = None \<longrightarrow>
          asyncHandler (updatePaymentStatus req s) = (Response 404 False None, s))
   \<and> (body_paymentStatus req \<in> Some ` set [''pending'', ''paid'', ''failed'', ''refunded'']
        \<and> findById rsv_id (reservations s) (params_id req) = Some r
        \<and> user req = Some u \<and> user_booker u = Some b \<and> b \<noteq> rsv_booker r \<longrightarrow>
          asyncHandler (updatePaymentStatus req s) = (Response 403 False None, s))"
proof -
  have exactly: "fst (updatePaymentStatus req s) = Inl (ErrorResponse 400)
      \<longleftrightarrow> body_paymentStatus req \<notin> Some ` set [''pending'', ''paid'', ''failed'', ''refunded'']"
    by (cases "body_paymentStatus req")
       (auto simp: updatePaymentStatus_def Let_def split: option.splits)
  have rejected: "asyncHandler (updatePaymentStatus req s) = (Response 400 False None, s)"
    if "body_paymentStatus req = Some ''partial''"
    using that by (simp add: updatePaymentStatus_def)
  have rejected_route: "PATCH_id_payment req s = (Response 400 False None, s)"
    if "body_paymentStatus req = Some ''partial'' \<and> user req = Some u \<and> user_role u = ''booker''"
    using that by (simp add: PATCH_id_payment_def authorize_def updatePaymentStatus_def)
  have accepted: "PATCH_id_payment req s
            = (Response 200 True
                 (Some (r\<lparr>paymentStatus := v,
                          rsv_transactionId :=
                            (if truthy (body_transactionId req) then the (body_transactionId req)
                             else rsv_transactionId r)\<rparr>)),
               s\<lparr>reservations :=
                   save rsv_id
                     (r\<lparr>paymentStatus := v,
                        rsv_transactionId :=
                          (if truthy (body_transactionId req) then the (body_transactionId req)
                           else rsv_transactionId r)\<rparr>)
                     (reservations s)\<rparr>)
        \<and> (\<exists>r'. findById rsv_id (reservations (snd (PATCH_id_payment req s))) (params_id req)
                    = Some r'
                \<and> paymentStatus r' = v)"
    if h: "body_paymentStatus req = Some v
        \<and> v \<in> set [''pending'', ''paid'', ''failed'', ''refunded'']
        \<and> user req = Some u \<and> user_role u = ''booker''
        \<and> findById rsv_id (reservations s) (params_id req) = Some r
        \<and> user_booker u = Some (rsv_booker r)"
  proof -
    define r' where
      "r' = r\<lparr>paymentStatus := v,
               rsv_transactionId :=
                 (if truthy (body_transactionId req) then the (body_transactionId req)
                  else rsv_transactionId r)\<rparr>"
    have handler: "updatePaymentStatus req s
                     = (Inr (Response 200 True (Some r')),
                        s\<lparr>reservations := save rsv_id r' (reservations s)\<rparr>)"
      using h by (auto simp: updatePaymentStatus_def Let_def r'_def)
    then have route: "PATCH_id_payment req s
                     = (Response 200 True (Some r'),
                        s\<lparr>reservations := save rsv_id r' (reservations s)\<rparr>)"
      using h by (simp add: PATCH_id_payment_def authorize_def)
    have "rsv_id r' = params_id req"
      using h findById_Some_id [of rsv_id "reservations s" "params_id req" r]
      by (simp add: r'_def)
    then have "findById rsv_id (reservations (snd (PATCH_id_payment req s))) (params_id req)
                 = Some r'"
      using route findById_save [of rsv_id r' "reservations s"] by simp
    moreover have "paymentStatus r' = v"
      by (simp add: r'_def)
    ultimately show ?thesis
      using route unfolding r'_def by blast
  qed
  have not_found: "asyncHandler (updatePaymentStatus req s) = (Response 404 False None, s)"
    if "body_paymentStatus req \<in> Some ` set [''pending'', ''paid'', ''failed'', ''refunded'']
        \<and> findById rsv_id (reservations s) (params_id req) = None"
    using that by (auto simp: updatePaymentStatus_def)
  have not_owner: "asyncHandler (updatePaymentStatus req s) = (Response 403 False None, s)"
    if "body_paymentStatus req \<in> Some ` set [''pending'', ''paid'', ''failed'', ''refunded'']
        \<and> findById rsv_id (reservations s) (params_id req) = Some r
        \<and> user req = Some u \<and> user_booker u = Some b \<and> b \<noteq> rsv_booker r"
    using that by (auto simp: updatePaymentStatus_def)
  show ?thesis
    using exactly rejected rejected_route accepted not_found not_owner
    by (intro conjI impI) blast+
qed

theorem updatePaymentStatus_accepts_exactly_witness:
  "asyncHandler (updatePaymentStatus
       (request_r1\<lparr>user := Some booker_b1, body_paymentStatus := Some ''partial''\<rparr>) db_r1)
     = (Response 400 False None, db_r1)
   \<and> PATCH_id_payment
     (request_r1\<lparr>user := Some booker_b1, body_paymentStatus := Some ''partial''\<rparr>) db_r1
     = (Response 400 False None, db_r1)
   \<and> PATCH_id_payment
       (request_r1\<lparr>user := Some booker_b1, body_paymentStatus := Some ''paid''\<rparr>) db_r1
     = (Response 200 True (Some (reservation_r1\<lparr>paymentStatus := ''paid''\<rparr>)),
        db_r1\<lparr>reservations := [reservation_r1\<lparr>paymentStatus := ''paid''\<rparr>]\<rparr>)
   \<and> asyncHandler (updatePaymentStatus
         (request_r1\<lparr>user := Some booker_b1, params_id := ''r9'',
                     body_paymentStatus := Some ''paid''\<rparr>) db_r1)
     = (Response 404 False None, db_r1)
   \<and> asyncHandler (updatePaymentStatus
         (request_r1\<lparr>user := Some booker_b2, body_paymentStatus := Some ''paid''\<rparr>) db_r1)
     = (Response 403 False None, db_r1)"
proof -
  let ?partial = "request_r1\<lparr>user := Some booker_b1, body_paymentStatus := Some ''partial''\<rparr>"
  let ?paid = "request_r1\<lparr>user := Some booker_b1, body_paymentStatus := Some ''paid''\<rparr>"
  let ?missing = "request_r1\<lparr>user := Some booker_b1, params_id := ''r9'',
                     body_paymentStatus := Some ''paid''\<rparr>"
  let ?other = "request_r1\<lparr>user := Some booker_b2, body_paymentStatus := Some ''paid''\<rparr>"
  have h1: "body_paymentStatus ?partial = Some ''partial''"
    by simp
  have h2: "body_paymentStatus ?partial = Some ''partial'' \<and> user ?partial = Some booker_b1
            \<and> user_role booker_b1 = ''booker''"
    by (simp add: booker_b1_def)
  have h3: "body_paymentStatus ?paid = Some ''paid''
        \<and> ''paid'' \<in> set [''pending'', ''paid'', ''failed'', ''refunded'']
        \<and> user ?paid = Some booker_b1 \<and> user_role booker_b1 = ''booker''
        \<and> findById rsv_id (reservations db_r1) (params_id ?paid) = Some reservation_r1
        \<and> user_booker booker_b1 = Some (rsv_booker reservation_r1)"
    by (simp add: example_defs findById_def)
  have h4: "body_paymentStatus ?missing \<in> Some ` set [''pending'', ''paid'', ''failed'', ''refunded'']
        \<and> findById rsv_id (reservations db_r1) (params_id ?missing) = None"
    by (simp add: example_defs findById_def)
  have h5: "body_paymentStatus ?other \<in> Some ` set [''pending'', ''paid'', ''failed'', ''refunded'']
        \<and> findById rsv_id (reservations db_r1) (params_id ?other) = Some reservation_r1
        \<and> user ?other = Some booker_b2 \<and> user_booker booker_b2 = Some ''b2''
        \<and> ''b2'' \<noteq> rsv_booker reservation_r1"
    by (simp add: example_defs booker_b2_def findById_def)
  note t = updatePaymentStatus_accepts_exactly
  have c2: "asyncHandler (updatePaymentStatus ?partial db_r1) = (Response 400 False None, db_r1)"
    using t [of ?partial db_r1, THEN conjunct2, THEN conjunct1, THEN mp, OF h1] .
  have c3: "PATCH_id_payment ?partial db_r1 = (Response 400 False None, db_r1)"
    using t [of ?partial db_r1 booker_b1, THEN conjunct2, THEN conjunct2, THEN conjunct1,
             THEN mp, OF h2] .
  have c4: "PATCH_id_payment ?paid db_r1
     = (Response 200 True (Some (reservation_r1\<lparr>paymentStatus := ''paid''\<rparr>)),
        db_r1\<lparr>reservations := [reservation_r1\<lparr>paymentStatus := ''paid''\<rparr>]\<rparr>)"
    using t [of ?paid db_r1 booker_b1 "''paid''" reservation_r1, THEN conjunct2, THEN conjunct2,
             THEN conjunct2, THEN conjunct1, THEN mp, OF h3, THEN conjunct1]
    by (simp add: example_defs save_def)
  have c5: "asyncHandler (updatePaymentStatus ?missing db_r1) = (Response 404 False None, db_r1)"
    using t [of ?missing db_r1, THEN conjunct2, THEN conjunct2, THEN conjunct2, THEN conjunct2,
             THEN conjunct1, THEN mp, OF h4] .
  have c6: "asyncHandler (updatePaymentStatus ?other db_r1) = (Response 403 False None, db_r1)"
    using t [of ?other db_r1 booker_b2 _ reservation_r1 "''b2''", THEN conjunct2, THEN conjunct2,
             THEN conjunct2, THEN conjunct2, THEN conjunct2, THEN mp, OF h5] .
  from c2 c3 c4 c5 c6 show ?thesis
    by blast
qed

text \<open>
  C10. When the principal carries no booker id, the reservation exists and the
  \<^verbatim>\<open>paymentStatus\<close> is valid, the ownership comparison throws; the error middleware
  answers 500 and nothing is written. On the route this is the case of a principal of
  role booker, the only role \<^verbatim>\<open>authorize\<close> lets through.
\<close>

theorem updatePaymentStatus_missing_booker_id:
  assumes "user req = Some u" and "user_booker u = None"
    and "findById rsv_id (reservations s) (params_id req) = Some r"
    and "body_paymentStatus req \<in> Some ` set [''pending'', ''paid'', ''failed'', ''refunded'']"
  shows "updatePaymentStatus req s = (Inl TypeError, s)
       \<and> asyncHandler (updatePaymentStatus req s) = (Response 500 False None, s)
       \<and> (user_role u = ''booker'' \<longrightarrow> PATCH_id_payment req s = (Response 500 False None, s))"
proof -
  have thrown: "updatePaymentStatus req s = (Inl TypeError, s)"
    using assms by (auto simp: updatePaymentStatus_def)
  then have handled: "asyncHandler (updatePaymentStatus req s) = (Response 500 False None, s)"
    by simp
  have "PATCH_id_payment req s = (Response 500 False None, s)" if "user_role u = ''booker''"
    using that assms(1) handled by (simp add: PATCH_id_payment_def authorize_def)
  with thrown handled show ?thesis by blast
qed

theorem updatePaymentStatus_missing_booker_id_witness:
  "PATCH_id_payment
     (request_r1\<lparr>user := Some booker_without_id, body_paymentStatus := Some ''paid''\<rparr>) db_r1
     = (Response 500 False None, db_r1)"
  using updatePaymentStatus_missing_booker_id
          [of "request_r1\<lparr>user := Some booker_without_id, body_paymentStatus := Some ''paid''\<rparr>"
              booker_without_id db_r1 reservation_r1]
  by (simp add: example_defs findById_def)

section \<open>Facts about payments\<close>

lemma payments_createNotification [simp]:
  "payments (createNotification n s) = payments s"
  by (simp add: createNotification_def)

lemma payments_notifyReservationStatusChange [simp]:
  "payments (notifyReservationStatusChange r p s) = payments s"
  by (simp add: notifyReservationStatusChange_def Let_def split: option.splits)

lemma reservations_notifyPayment [simp]:
  "reservations (notifyPayment p r a s) = reservations s"
  by (simp add: notifyPayment_def Let_def)

lemma payments_notifyPayment [simp]:
  "payments (notifyPayment p r a s) = payments s"
  by (simp add: notifyPayment_def Let_def)

lemma Payment_create_Some:
  assumes "Payment_create e rid payerId payeeId amt fee tot pmethod ptype ps = Some c"
  shows "pay_id c = newId e \<and> pay_reservation c = rid \<and> payer c = payerId \<and> payee c = payeeId
       \<and> amt = Some (amount c) \<and> fee = Some (serviceFee c) \<and> tot = Some (totalAmount c)
       \<and> paymentType c = ptype \<and> pay_status c = Some ''pending''"
  using assms by (auto simp: Payment_create_def split: option.splits if_splits)

text \<open>The shape of a successful createPayment.\<close>

lemma createPayment_Inr:
  assumes "createPayment Number_add e req s = (Inr resp, s')"
  shows "\<exists>r c payerId pmethod ptype.
           findById rsv_id (reservations s) (body_reservationId req) = Some r
         \<and> Payment_create e (body_reservationId req) payerId (artistId r)
             (body_amount req) (body_serviceFee req)
             (Number_plus Number_add (body_amount req) (body_serviceFee req))
             pmethod ptype (payments s) = Some c
         \<and> resp = Response 201 True
                    (Some (c\<lparr>pay_status := Some ''completed'',
                             pay_transactionId := ''sim_'' @ randomTransactionId e\<rparr>))
         \<and> payments s' = save pay_id (c\<lparr>pay_status := Some ''completed'',
                             pay_transactionId := ''sim_'' @ randomTransactionId e\<rparr>) (payments s)
         \<and> reservations s' =
             save rsv_id
               (r\<lparr>paymentStatus := (if paymentType c = ''advance'' then ''partial'' else ''paid''),
                  rsv_status := (if rsv_status r = ''pending'' then ''confirmed'' else rsv_status r),
                  rsv_transactionId := ''sim_'' @ randomTransactionId e\<rparr>)
               (reservations s)"
proof -
  from assms obtain r
    where r: "findById rsv_id (reservations s) (body_reservationId req) = Some r"
    by (cases "findById rsv_id (reservations s) (body_reservationId req)")
       (simp_all add: createPayment_def)
  from assms r obtain u where u: "user req = Some u"
    by (cases "user req") (simp_all add: createPayment_def)
  define bookerId where
    "bookerId = (if truthy (user_booker u) then the (user_booker u) else user_id u)"
  from assms r u have own: "rsv_booker r = bookerId"
    by (cases "rsv_booker r = bookerId") (simp_all add: createPayment_def bookerId_def Let_def)
  from assms r u own obtain saved where saved: "savedPaymentMethod req bookerId s = Inr saved"
    by (cases "savedPaymentMethod req bookerId s")
       (simp_all add: createPayment_def bookerId_def Let_def)
  define pmethod where
    "pmethod = (case saved of Some m \<Rightarrow> Some (pm_type m) | None \<Rightarrow> body_paymentMethod req)"
  define ptype where
    "ptype = (if truthy (body_paymentType req) then the (body_paymentType req) else ''full'')"
  define created where
    "created = Payment_create e (body_reservationId req) bookerId (artistId r)
                 (body_amount req) (body_serviceFee req)
                 (Number_plus Number_add (body_amount req) (body_serviceFee req)) pmethod ptype (payments s)"
  from assms r u own saved obtain c where c: "created = Some c"
    by (cases created)
       (simp_all add: createPayment_def bookerId_def pmethod_def ptype_def created_def Let_def)
  from assms r u own saved c
  have "resp = Response 201 True
                    (Some (c\<lparr>pay_status := Some ''completed'',
                             pay_transactionId := ''sim_'' @ randomTransactionId e\<rparr>))
     \<and> payments s' = save pay_id (c\<lparr>pay_status := Some ''completed'',
                             pay_transactionId := ''sim_'' @ randomTransactionId e\<rparr>) (payments s)
     \<and> reservations s' =
             save rsv_id
               (r\<lparr>paymentStatus := (if paymentType c = ''advance'' then ''partial'' else ''paid''),
                  rsv_status := (if rsv_status r = ''pending'' then ''confirmed'' else rsv_status r),
                  rsv_transactionId := ''sim_'' @ randomTransactionId e\<rparr>)
               (reservations s)"
    by (auto simp: createPayment_def bookerId_def pmethod_def ptype_def created_def Let_def)
  with r c show ?thesis
    unfolding created_def by blast
qed

lemma createPayment_Inl:
  assumes "createPayment Number_add e req s = (Inl err, s')"
  shows "s' = s"
proof (cases "findById rsv_id (reservations s) (body_reservationId req)")
  case None
  with assms show ?thesis by (simp add: createPayment_def)
next
  case r: (Some r)
  show ?thesis
  proof (cases "user req")
    case None
    with assms r show ?thesis by (simp add: createPayment_def)
  next
    case u: (Some u)
    define bookerId where
      "bookerId = (if truthy (user_booker u) then the (user_booker u) else user_id u)"
    show ?thesis
    proof (cases "rsv_booker r = bookerId")
      case False
      with assms r u show ?thesis by (simp add: createPayment_def bookerId_def Let_def)
    next
      case own: True
      show ?thesis
      proof (cases "savedPaymentMethod req bookerId s")
        case (Inl a)
        with assms r u own show ?thesis by (simp add: createPayment_def bookerId_def Let_def)
      next
        case saved: (Inr saved)
        define created where
          "created = Payment_create e (body_reservationId req) bookerId (artistId r)
                 (body_amount req) (body_serviceFee req)
                 (Number_plus Number_add (body_amount req) (body_serviceFee req))
                 (case saved of Some m \<Rightarrow> Some (pm_type m) | None \<Rightarrow> body_paymentMethod req)
                 (if truthy (body_paymentType req) then the (body_paymentType req) else ''full'')
                 (payments s)"
        show ?thesis
        proof (cases created)
          case None
          with assms r u own saved show ?thesis
            by (simp add: createPayment_def bookerId_def created_def Let_def)
        next
          case (Some c)
          with assms r u own saved show ?thesis
            by (simp add: createPayment_def bookerId_def created_def Let_def)
        qed
      qed
    qed
  qed
qed


lemma notifications_createNotification [simp]:
  "notifications (createNotification n s) = notifications s @ [n]"
  by (simp add: createNotification_def)

lemma notifyPayment_types [simp]:
  "map ntf_type (notifications (notifyPayment p r ''confirmed'' s))
     = map ntf_type (notifications s) @ [''payment_confirmed'', ''payment_confirmed'']"
  by (simp add: notifyPayment_def Let_def)

lemma notifyReservationStatusChange_confirmed [simp]:
  "rsv_status r = ''confirmed'' \<Longrightarrow>
   map ntf_type (notifications (notifyReservationStatusChange r prev s))
     = map ntf_type (notifications s) @ [''reservation_confirmed'']"
  by (simp add: notifyReservationStatusChange_def Let_def)

lemma paymentWebhook_completed:
  assumes p: "findById pay_id (payments s)
                (if truthy (body_paymentId req) then the (body_paymentId req) else params_id req)
              = Some p"
    and st: "body_status req = Some ''completed''"
    and r: "findById rsv_id (reservations s) (pay_reservation p) = Some r"
  defines "p2 \<equiv> (if truthy (body_transactionId req)
                  then p\<lparr>pay_status := Some ''completed'',
                         pay_transactionId := the (body_transactionId req)\<rparr>
                  else p\<lparr>pay_status := Some ''completed''\<rparr>)"
    and "r2 \<equiv> r\<lparr>paymentStatus := (if paymentType p = ''advance'' then ''partial'' else ''paid''),
                 rsv_status := (if rsv_status r = ''pending'' then ''confirmed'' else rsv_status r)\<rparr>"
  shows "fst (paymentWebhook req s) = Inr (Response 200 True (Some p2))"
    and "payments (snd (paymentWebhook req s)) = save pay_id p2 (payments s)"
    and "reservations (snd (paymentWebhook req s)) = save rsv_id r2 (reservations s)"
    and "map ntf_type (notifications (snd (paymentWebhook req s)))
           = map ntf_type (notifications s)
             @ (if rsv_status r = ''pending'' then [''reservation_confirmed''] else [])
             @ [''payment_confirmed'', ''payment_confirmed'']"
proof -
  show "fst (paymentWebhook req s) = Inr (Response 200 True (Some p2))"
    using p st r by (simp add: paymentWebhook_def Let_def p2_def)
  show "payments (snd (paymentWebhook req s)) = save pay_id p2 (payments s)"
    using p st r by (simp add: paymentWebhook_def Let_def p2_def)
  show "reservations (snd (paymentWebhook req s)) = save rsv_id r2 (reservations s)"
    using p st r by (simp add: paymentWebhook_def Let_def r2_def)
  show "map ntf_type (notifications (snd (paymentWebhook req s)))
           = map ntf_type (notifications s)
             @ (if rsv_status r = ''pending'' then [''reservation_confirmed''] else [])
             @ [''payment_confirmed'', ''payment_confirmed'']"
    using p st r by (simp add: paymentWebhook_def Let_def)
qed

section \<open>Payment completion\<close>

lemma double_add_500_25: "double_add 500 25 = Some 525"
  by (simp add: double_add_def round53_def halvings.simps Let_def)

lemma double_add_large: "double_add 9007199254740992 1 = Some 9007199254740992"
  by (simp add: double_add_def round53_def halvings.simps Let_def)

lemma createPayment_example:
  "createPayment double_add env_1 request_pay db_r1 =
     (Inr (Response 201 True (Some payment_x1)),
      db_r1\<lparr>reservations :=
               [reservation_r1\<lparr>rsv_status := ''confirmed'', paymentStatus := ''partial'',
                               rsv_transactionId := ''sim_k3j9''\<rparr>],
            payments := [payment_x1],
            notifications :=
              [\<lparr>recipient = ''a1'', recipientModel = ''Artist'', sender = ''b1'',
                senderModel = ''Booker'', relatedId = ''r1'', ntf_type = ''payment_received'',
                ntf_previousStatus = None\<rparr>,
               \<lparr>recipient = ''b1'', recipientModel = ''Booker'', sender = ''a1'',
                senderModel = ''Artist'', relatedId = ''r1'', ntf_type = ''payment_received'',
                ntf_previousStatus = None\<rparr>,
               \<lparr>recipient = ''b1'', recipientModel = ''Booker'', sender = ''a1'',
                senderModel = ''Artist'', relatedId = ''r1'', ntf_type = ''reservation_confirmed'',
                ntf_previousStatus = Some ''pending''\<rparr>]\<rparr>)"
  by (simp add: example_defs request_pay_def payment_x1_def createPayment_def findById_def
        savedPaymentMethod_def Number_plus_def double_add_500_25 Payment_create_def save_def Let_def
        notifyPayment_def notifyReservationStatusChange_def createNotification_def)

text \<open>
  C1. Whenever a payment becomes completed, by the settlement that \<^verbatim>\<open>createPayment\<close>
  simulates or by a webhook delivery with status completed for a payment whose reservation
  exists, the stored reservation's \<^verbatim>\<open>paymentStatus\<close> is partial for an advance payment and
  paid otherwise, and its status is confirmed if it was pending and unchanged otherwise.
\<close>

theorem payment_completion_updates_reservation:
  "(createPayment Number_add e req s = (Inr resp, s') \<longrightarrow>
      (\<exists>p r r'. res_data resp = Some p \<and> pay_status p = Some ''completed''
         \<and> findById pay_id (payments s') (pay_id p) = Some p
         \<and> findById rsv_id (reservations s) (pay_reservation p) = Some r
         \<and> findById rsv_id (reservations s') (pay_reservation p) = Some r'
         \<and> paymentStatus r' = (if paymentType p = ''advance'' then ''partial'' else ''paid'')
         \<and> rsv_status r' = (if rsv_status r = ''pending'' then ''confirmed'' else rsv_status r)))
   \<and> (findById pay_id (payments s)
         (if truthy (body_paymentId req) then the (body_paymentId req) else params_id req) = Some q
       \<and> body_status req = Some ''completed''
       \<and> findById rsv_id (reservations s) (pay_reservation q) = Some r0 \<longrightarrow>
      (\<exists>p r'. fst (paymentWebhook req s) = Inr (Response 200 True (Some p))
         \<and> pay_status p = Some ''completed'' \<and> paymentType p = paymentType q
         \<and> findById pay_id (payments (snd (paymentWebhook req s))) (pay_id q) = Some p
         \<and> findById rsv_id (reservations (snd (paymentWebhook req s))) (pay_reservation q) = Some r'
         \<and> paymentStatus r' = (if paymentType q = ''advance'' then ''partial'' else ''paid'')
         \<and> rsv_status r' = (if rsv_status r0 = ''pending'' then ''confirmed'' else rsv_status r0)))"
proof (intro conjI impI)
  assume "createPayment Number_add e req s = (Inr resp, s')"
  from createPayment_Inr [OF this] obtain r c payerId pmethod ptype where
    r: "findById rsv_id (reservations s) (body_reservationId req) = Some r"
    and c: "Payment_create e (body_reservationId req) payerId (artistId r)
             (body_amount req) (body_serviceFee req)
             (Number_plus Number_add (body_amount req) (body_serviceFee req))
             pmethod ptype (payments s) = Some c"
    and resp: "resp = Response 201 True
                    (Some (c\<lparr>pay_status := Some ''completed'',
                             pay_transactionId := ''sim_'' @ randomTransactionId e\<rparr>))"
    and pays: "payments s' = save pay_id (c\<lparr>pay_status := Some ''completed'',
                             pay_transactionId := ''sim_'' @ randomTransactionId e\<rparr>) (payments s)"
    and rsvs: "reservations s' =
             save rsv_id
               (r\<lparr>paymentStatus := (if paymentType c = ''advance'' then ''partial'' else ''paid''),
                  rsv_status := (if rsv_status r = ''pending'' then ''confirmed'' else rsv_status r),
                  rsv_transactionId := ''sim_'' @ randomTransactionId e\<rparr>)
               (reservations s)"
    by blast
  define p where "p = c\<lparr>pay_status := Some ''completed'',
                             pay_transactionId := ''sim_'' @ randomTransactionId e\<rparr>"
  define r' where "r' = r\<lparr>paymentStatus := (if paymentType c = ''advance'' then ''partial'' else ''paid''),
                  rsv_status := (if rsv_status r = ''pending'' then ''confirmed'' else rsv_status r),
                  rsv_transactionId := ''sim_'' @ randomTransactionId e\<rparr>"
  have rid: "pay_reservation p = rsv_id r"
    using Payment_create_Some [OF c] findById_Some_id [OF r] by (simp add: p_def)
  have "findById pay_id (payments s') (pay_id p) = Some p"
    using findById_save [of pay_id p "payments s"] by (simp add: pays p_def)
  moreover have "findById rsv_id (reservations s') (pay_reservation p) = Some r'"
    using findById_save [of rsv_id r' "reservations s"] rid by (simp add: rsvs r'_def)
  moreover have "findById rsv_id (reservations s) (pay_reservation p) = Some r"
    using r rid findById_Some_id [OF r] by simp
  moreover have "res_data resp = Some p" "pay_status p = Some ''completed''"
    by (simp_all add: resp p_def)
  moreover have "paymentStatus r' = (if paymentType p = ''advance'' then ''partial'' else ''paid'')"
    "rsv_status r' = (if rsv_status r = ''pending'' then ''confirmed'' else rsv_status r)"
    by (simp_all add: r'_def p_def)
  ultimately show "\<exists>p r r'. res_data resp = Some p \<and> pay_status p = Some ''completed''
         \<and> findById pay_id (payments s') (pay_id p) = Some p
         \<and> findById rsv_id (reservations s) (pay_reservation p) = Some r
         \<and> findById rsv_id (reservations s') (pay_reservation p) = Some r'
         \<and> paymentStatus r' = (if paymentType p = ''advance'' then ''partial'' else ''paid'')
         \<and> rsv_status r' = (if rsv_status r = ''pending'' then ''confirmed'' else rsv_status r)"
    by blast
next
  assume h: "findById pay_id (payments s)
         (if truthy (body_paymentId req) then the (body_paymentId req) else params_id req) = Some q
       \<and> body_status req = Some ''completed''
       \<and> findById rsv_id (reservations s) (pay_reservation q) = Some r0"
  define p where "p = (if truthy (body_transactionId req)
                  then q\<lparr>pay_status := Some ''completed'',
                         pay_transactionId := the (body_transactionId req)\<rparr>
                  else q\<lparr>pay_status := Some ''completed''\<rparr>)"
  define r' where "r' = r0\<lparr>paymentStatus := (if paymentType q = ''advance'' then ''partial'' else ''paid''),
                 rsv_status := (if rsv_status r0 = ''pending'' then ''confirmed'' else rsv_status r0)\<rparr>"
  note w = paymentWebhook_completed [of s req q r0, folded p_def r'_def]
  have "fst (paymentWebhook req s) = Inr (Response 200 True (Some p))"
    using h w(1) by blast
  moreover have "pay_status p = Some ''completed''" "paymentType p = paymentType q"
    by (simp_all add: p_def)
  moreover have "findById pay_id (payments (snd (paymentWebhook req s))) (pay_id q) = Some p"
  proof -
    have "pay_id p = pay_id q" by (simp add: p_def)
    then show ?thesis
      using h w(2) findById_save [of pay_id p "payments s"] by simp
  qed
  moreover have "findById rsv_id (reservations (snd (paymentWebhook req s))) (pay_reservation q) = Some r'"
  proof -
    have "rsv_id r' = pay_reservation q"
      using h findById_Some_id [of rsv_id "reservations s" "pay_reservation q" r0]
      by (simp add: r'_def)
    then show ?thesis
      using h w(3) findById_save [of rsv_id r' "reservations s"] by simp
  qed
  moreover have "paymentStatus r' = (if paymentType q = ''advance'' then ''partial'' else ''paid'')"
    "rsv_status r' = (if rsv_status r0 = ''pending'' then ''confirmed'' else rsv_status r0)"
    by (simp_all add: r'_def)
  ultimately show "\<exists>p r'. fst (paymentWebhook req s) = Inr (Response 200 True (Some p))
         \<and> pay_status p = Some ''completed'' \<and> paymentType p = paymentType q
         \<and> findById pay_id (payments (snd (paymentWebhook req s))) (pay_id q) = Some p
         \<and> findById rsv_id (reservations (snd (paymentWebhook req s))) (pay_reservation q) = Some r'
         \<and> paymentStatus r' = (if paymentType q = ''advance'' then ''partial'' else ''paid'')
         \<and> rsv_status r' = (if rsv_status r0 = ''pending'' then ''confirmed'' else rsv_status r0)"
    by blast
qed

lemma db_paid_eq:
  "db_paid =
      db_r1\<lparr>reservations :=
               [reservation_r1\<lparr>rsv_status := ''confirmed'', paymentStatus := ''partial'',
                               rsv_transactionId := ''sim_k3j9''\<rparr>],
            payments := [payment_x1],
            notifications :=
              [\<lparr>recipient = ''a1'', recipientModel = ''Artist'', sender = ''b1'',
                senderModel = ''Booker'', relatedId = ''r1'', ntf_type = ''payment_received'',
                ntf_previousStatus = None\<rparr>,
               \<lparr>recipient = ''b1'', recipientModel = ''Booker'', sender = ''a1'',
                senderModel = ''Artist'', relatedId = ''r1'', ntf_type = ''payment_received'',
                ntf_previousStatus = None\<rparr>,
               \<lparr>recipient = ''b1'', recipientModel = ''Booker'', sender = ''a1'',
                senderModel = ''Artist'', relatedId = ''r1'', ntf_type = ''reservation_confirmed'',
                ntf_previousStatus = Some ''pending''\<rparr>]\<rparr>"
  by (simp add: db_paid_def createPayment_example)

theorem payment_completion_updates_reservation_witness:
  "createPayment double_add env_1 request_pay db_r1 = (Inr (Response 201 True (Some payment_x1)), db_paid)
   \<and> (\<exists>r'. findById rsv_id (reservations db_paid) ''r1'' = Some r'
          \<and> paymentStatus r' = ''partial'' \<and> rsv_status r' = ''confirmed'')
   \<and> (\<exists>r'. findById rsv_id (reservations (snd (paymentWebhook request_webhook db_paid))) ''r1''
            = Some r'
          \<and> paymentStatus r' = ''partial'' \<and> rsv_status r' = ''confirmed'')"
proof -
  have a: "createPayment double_add env_1 request_pay db_r1
             = (Inr (Response 201 True (Some payment_x1)), db_paid)"
    by (simp add: createPayment_example db_paid_def)
  have b: "findById pay_id (payments db_paid)
             (if truthy (body_paymentId request_webhook)
              then the (body_paymentId request_webhook) else params_id request_webhook)
             = Some payment_x1
           \<and> body_status request_webhook = Some ''completed''
           \<and> findById rsv_id (reservations db_paid) (pay_reservation payment_x1)
               = Some (reservation_r1\<lparr>rsv_status := ''confirmed'', paymentStatus := ''partial'',
                               rsv_transactionId := ''sim_k3j9''\<rparr>)"
    by (simp add: db_paid_eq request_webhook_def request_r1_def payment_x1_def
          reservation_r1_def db_r1_def db_empty_def findById_def)
  have r1: "findById rsv_id (reservations db_r1) ''r1'' = Some reservation_r1"
    by (simp add: db_r1_def db_empty_def reservation_r1_def findById_def)
  from payment_completion_updates_reservation
         [of double_add env_1 request_pay db_r1 "Response 201 True (Some payment_x1)" db_paid,
          THEN conjunct1, THEN mp, OF a] r1
  have "\<exists>r'. findById rsv_id (reservations db_paid) ''r1'' = Some r'
          \<and> paymentStatus r' = ''partial'' \<and> rsv_status r' = ''confirmed''"
    by (auto simp: payment_x1_def reservation_r1_def)
  moreover
  from payment_completion_updates_reservation
         [of _ _ request_webhook db_paid _ _ payment_x1, THEN conjunct2, THEN mp, OF b]
  have "\<exists>r'. findById rsv_id (reservations (snd (paymentWebhook request_webhook db_paid))) ''r1''
            = Some r'
          \<and> paymentStatus r' = ''partial'' \<and> rsv_status r' = ''confirmed''"
    by (auto simp: payment_x1_def reservation_r1_def)
  ultimately show ?thesis
    using a by blast
qed

lemma createPayment_large:
  "fst (createPayment double_add env_1 request_pay_large db_r1)
     = Inr (Response 201 True (Some payment_large))"
  by (simp add: example_defs request_pay_def request_pay_large_def payment_large_def
        createPayment_def findById_def savedPaymentMethod_def Number_plus_def double_add_large
        Payment_create_def Let_def)

text \<open>
  C6. The payment stored by \<^verbatim>\<open>createPayment\<close> has as \<^verbatim>\<open>totalAmount\<close> the sum of its stored
  \<^verbatim>\<open>amount\<close> and \<^verbatim>\<open>serviceFee\<close>, which are the request's, the sum being the language's
  addition of Numbers (whatever that addition is: the statement holds for every
  \<open>Number_add\<close>, so for the rounding one of doubles); a failed request stores nothing; a
  \<^verbatim>\<open>totalAmount\<close> in the body changes nothing.
\<close>

theorem createPayment_totalAmount:
  "(createPayment Number_add e req s = (Inr resp, s') \<longrightarrow>
      (\<exists>p. res_data resp = Some p
         \<and> findById pay_id (payments s') (pay_id p) = Some p
         \<and> body_amount req = Some (amount p) \<and> body_serviceFee req = Some (serviceFee p)
         \<and> Number_add (amount p) (serviceFee p) = Some (totalAmount p)))
   \<and> (createPayment Number_add e req s = (Inl err, s') \<longrightarrow> s' = s)
   \<and> createPayment Number_add e (req\<lparr>body_totalAmount := x\<rparr>) s = createPayment Number_add e req s"
proof (intro conjI impI)
  assume "createPayment Number_add e req s = (Inr resp, s')"
  from createPayment_Inr [OF this] obtain r c payerId pmethod ptype where
    r: "findById rsv_id (reservations s) (body_reservationId req) = Some r"
    and c: "Payment_create e (body_reservationId req) payerId (artistId r)
             (body_amount req) (body_serviceFee req)
             (Number_plus Number_add (body_amount req) (body_serviceFee req))
             pmethod ptype (payments s) = Some c"
    and resp: "resp = Response 201 True
                    (Some (c\<lparr>pay_status := Some ''completed'',
                             pay_transactionId := ''sim_'' @ randomTransactionId e\<rparr>))"
    and pays: "payments s' = save pay_id (c\<lparr>pay_status := Some ''completed'',
                             pay_transactionId := ''sim_'' @ randomTransactionId e\<rparr>) (payments s)"
    by auto
  define p where "p = c\<lparr>pay_status := Some ''completed'',
                             pay_transactionId := ''sim_'' @ randomTransactionId e\<rparr>"
  note created = Payment_create_Some [OF c]
  have amt: "body_amount req = Some (amount p)" and fee: "body_serviceFee req = Some (serviceFee p)"
    using created by (simp_all add: p_def)
  have "Number_plus Number_add (Some (amount c)) (Some (serviceFee c)) = Some (totalAmount c)"
    using created by metis
  then have "Number_add (amount p) (serviceFee p) = Some (totalAmount p)"
    by (simp add: Number_plus_def p_def)
  moreover have "findById pay_id (payments s') (pay_id p) = Some p"
    using findById_save [of pay_id p "payments s"] by (simp add: pays p_def)
  moreover have "res_data resp = Some p"
    by (simp add: resp p_def)
  ultimately show "\<exists>p. res_data resp = Some p
         \<and> findById pay_id (payments s') (pay_id p) = Some p
         \<and> body_amount req = Some (amount p) \<and> body_serviceFee req = Some (serviceFee p)
         \<and> Number_add (amount p) (serviceFee p) = Some (totalAmount p)"
    using amt fee by blast
next
  assume "createPayment Number_add e req s = (Inl err, s')"
  then show "s' = s"
    by (rule createPayment_Inl)
next
  show "createPayment Number_add e (req\<lparr>body_totalAmount := x\<rparr>) s = createPayment Number_add e req s"
    by (simp add: createPayment_def savedPaymentMethod_def
          cong: option.case_cong sum.case_cong if_cong)
qed

theorem createPayment_totalAmount_witness:
  "body_totalAmount request_pay = Some 1
   \<and> (\<exists>p. findById pay_id (payments db_paid) ''x1'' = Some p
         \<and> amount p = 500 \<and> serviceFee p = 25 \<and> totalAmount p = 525)
   \<and> createPayment double_add env_1 (request_pay\<lparr>body_amount := None\<rparr>) db_r1
       = (Inl (ErrorResponse 500), db_r1)
   \<and> (\<exists>p. findById pay_id
            (payments (snd (createPayment double_add env_1 request_pay_large db_r1))) ''x1''
            = Some p
         \<and> amount p = 9007199254740992 \<and> serviceFee p = 1
         \<and> totalAmount p = 9007199254740992)"
proof -
  have large: "createPayment double_add env_1 request_pay_large db_r1
             = (Inr (Response 201 True (Some payment_large)),
                snd (createPayment double_add env_1 request_pay_large db_r1))"
    using createPayment_large by (metis prod.collapse)
  from createPayment_totalAmount
         [of double_add env_1 request_pay_large db_r1 "Response 201 True (Some payment_large)"
             "snd (createPayment double_add env_1 request_pay_large db_r1)",
          THEN conjunct1, THEN mp, OF large]
  have rounded: "\<exists>p. findById pay_id
            (payments (snd (createPayment double_add env_1 request_pay_large db_r1))) ''x1''
            = Some p
         \<and> amount p = 9007199254740992 \<and> serviceFee p = 1
         \<and> totalAmount p = 9007199254740992"
    by (auto simp: payment_large_def)
  have failed: "fst (createPayment double_add env_1 (request_pay\<lparr>body_amount := None\<rparr>) db_r1)
                  = Inl (ErrorResponse 500)"
    by (simp add: example_defs request_pay_def createPayment_def findById_def
          savedPaymentMethod_def Number_plus_def double_add_500_25 Payment_create_def Let_def)
  then have "createPayment double_add env_1 (request_pay\<lparr>body_amount := None\<rparr>) db_r1
               = (Inl (ErrorResponse 500),
                  snd (createPayment double_add env_1 (request_pay\<lparr>body_amount := None\<rparr>) db_r1))"
    by (metis prod.collapse)
  from this createPayment_totalAmount
         [of double_add env_1 "request_pay\<lparr>body_amount := None\<rparr>" db_r1 _
             "snd (createPayment double_add env_1 (request_pay\<lparr>body_amount := None\<rparr>) db_r1)"
             "ErrorResponse 500",
          THEN conjunct2, THEN conjunct1, THEN mp, OF this]
  have nothing_stored: "createPayment double_add env_1 (request_pay\<lparr>body_amount := None\<rparr>) db_r1
                          = (Inl (ErrorResponse 500), db_r1)"
    by simp
  have a: "createPayment double_add env_1 request_pay db_r1
             = (Inr (Response 201 True (Some payment_x1)), db_paid)"
    by (simp add: createPayment_example db_paid_def)
  from createPayment_totalAmount
         [of double_add env_1 request_pay db_r1 "Response 201 True (Some payment_x1)" db_paid,
          THEN conjunct1, THEN mp, OF a]
  have "\<exists>p. findById pay_id (payments db_paid) ''x1'' = Some p
         \<and> amount p = 500 \<and> serviceFee p = 25 \<and> totalAmount p = 525"
    by (auto simp: payment_x1_def request_pay_def request_r1_def)
  then show ?thesis
    using nothing_stored rounded by (simp add: request_pay_def request_r1_def)
qed

text \<open>
  C8. A webhook delivery with status completed for a payment that is already completed
  is answered 200, writes the reservation's payment status and status again, and appends
  the payment notifications again: the database after the delivery differs from the one
  before, so a repeated delivery is never a no-op.
\<close>

theorem paymentWebhook_not_idempotent:
  assumes "findById pay_id (payments s)
             (if truthy (body_paymentId req) then the (body_paymentId req) else params_id req)
           = Some q"
    and "pay_status q = Some ''completed''"
    and "body_status req = Some ''completed''"
    and "findById rsv_id (reservations s) (pay_reservation q) = Some r0"
  shows "(\<exists>p. fst (paymentWebhook req s) = Inr (Response 200 True (Some p)))
       \<and> (\<exists>r'. findById rsv_id (reservations (snd (paymentWebhook req s))) (pay_reservation q)
                 = Some r'
              \<and> paymentStatus r' = (if paymentType q = ''advance'' then ''partial'' else ''paid'')
              \<and> rsv_status r'
                   = (if rsv_status r0 = ''pending'' then ''confirmed'' else rsv_status r0))
       \<and> map ntf_type (notifications (snd (paymentWebhook req s)))
           = map ntf_type (notifications s)
             @ (if rsv_status r0 = ''pending'' then [''reservation_confirmed''] else [])
             @ [''payment_confirmed'', ''payment_confirmed'']
       \<and> snd (paymentWebhook req s) \<noteq> s"
proof -
  define r' where
    "r' = r0\<lparr>paymentStatus := (if paymentType q = ''advance'' then ''partial'' else ''paid''),
              rsv_status := (if rsv_status r0 = ''pending'' then ''confirmed'' else rsv_status r0)\<rparr>"
  note w = paymentWebhook_completed [OF assms(1) assms(3) assms(4), folded r'_def]
  have resp: "\<exists>p. fst (paymentWebhook req s) = Inr (Response 200 True (Some p))"
    using w(1) by blast
  have "rsv_id r' = pay_reservation q"
    using findById_Some_id [OF assms(4)] by (simp add: r'_def)
  then have "findById rsv_id (reservations (snd (paymentWebhook req s))) (pay_reservation q)
               = Some r'"
    using w(3) findById_save [of rsv_id r' "reservations s"] by simp
  then have rsv: "\<exists>r'. findById rsv_id (reservations (snd (paymentWebhook req s)))
                          (pay_reservation q) = Some r'
              \<and> paymentStatus r' = (if paymentType q = ''advance'' then ''partial'' else ''paid'')
              \<and> rsv_status r'
                   = (if rsv_status r0 = ''pending'' then ''confirmed'' else rsv_status r0)"
    by (simp add: r'_def)
  have "length (map ntf_type (notifications (snd (paymentWebhook req s))))
          \<noteq> length (map ntf_type (notifications s))"
    unfolding w(4) by simp
  then have changed: "snd (paymentWebhook req s) \<noteq> s"
    by auto
  from resp rsv w(4) changed show ?thesis
    by blast
qed

theorem paymentWebhook_not_idempotent_witness:
  "pay_status payment_x1 = Some ''completed''
   \<and> map ntf_type (notifications db_paid)
       = [''payment_received'', ''payment_received'', ''reservation_confirmed'']
   \<and> map ntf_type (notifications (snd (paymentWebhook request_webhook db_paid)))
       = [''payment_received'', ''payment_received'', ''reservation_confirmed'',
          ''payment_confirmed'', ''payment_confirmed'']"
proof -
  have q: "findById pay_id (payments db_paid)
             (if truthy (body_paymentId request_webhook)
              then the (body_paymentId request_webhook) else params_id request_webhook)
             = Some payment_x1"
    by (simp add: db_paid_eq request_webhook_def request_r1_def payment_x1_def findById_def)
  have compl: "pay_status payment_x1 = Some ''completed''"
    by (simp add: payment_x1_def)
  have st: "body_status request_webhook = Some ''completed''"
    by (simp add: request_webhook_def request_r1_def)
  have r: "findById rsv_id (reservations db_paid) (pay_reservation payment_x1)
               = Some (reservation_r1\<lparr>rsv_status := ''confirmed'', paymentStatus := ''partial'',
                               rsv_transactionId := ''sim_k3j9''\<rparr>)"
    by (simp add: db_paid_eq payment_x1_def reservation_r1_def findById_def)
  have before: "map ntf_type (notifications db_paid)
       = [''payment_received'', ''payment_received'', ''reservation_confirmed'']"
    by (simp add: db_paid_eq)
  from paymentWebhook_not_idempotent [OF q compl st r] before
  have "map ntf_type (notifications (snd (paymentWebhook request_webhook db_paid)))
       = [''payment_received'', ''payment_received'', ''reservation_confirmed'',
          ''payment_confirmed'', ''payment_confirmed'']"
    by (simp add: reservation_r1_def)
  with compl before show ?thesis
    by blast
qed


section \<open>Payment methods: the default flag\<close>

lemma db_one_method_eq: "db_one_method = db_empty\<lparr>paymentMethods := [method_x1]\<rparr>"
  by (simp add: db_one_method_def addPaymentMethod_def request_add_def request_r1_def
        booker_b1_def env_1_def db_empty_def requesterId_def countOwned_def method_x1_def
        Let_def save_def defaultCount_def sameOwner_def
        clearOtherDefaults_def)

lemma db_two_methods_eq: "db_two_methods = db_empty\<lparr>paymentMethods := [method_x1, method_x2]\<rparr>"
  by (simp add: db_two_methods_def db_one_method_eq addPaymentMethod_def request_add_def
        request_r1_def booker_b1_def env_2_def db_empty_def requesterId_def countOwned_def
        method_x1_def method_x2_def Let_def save_def defaultCount_def
        sameOwner_def clearOtherDefaults_def)

lemma db_default_deleted_eq: "db_default_deleted = db_empty\<lparr>paymentMethods := [method_x2]\<rparr>"
  by (simp add: db_default_deleted_def db_two_methods_eq deletePaymentMethod_def request_add_def
        request_r1_def booker_b1_def db_empty_def requesterId_def countOwned_def
        method_x1_def method_x2_def findById_def)

lemma findById_deleteOne_other:
  "i \<noteq> j \<Longrightarrow> findById idf (deleteOne idf j xs) i = findById idf xs i"
  by (induction xs) (auto simp: findById_def)

lemma length_deleteOne:
  "findById idf xs j = Some m \<Longrightarrow> length (deleteOne idf j xs) + 1 = length xs"
  by (induction xs) (auto simp: findById_def split: if_splits)

text \<open>
  C5. Among the owner's methods exactly one must be the default whenever there is one.
  Booker b1 adds two methods and deletes the first, which is the default: the deletion is
  accepted, no save hook runs, and the surviving method is not promoted. The owner has one
  method and no default.
\<close>

theorem default_lost_after_delete:
  "paymentMethods db_two_methods = [method_x1, method_x2]
   \<and> isDefault method_x1
   \<and> fst (deletePaymentMethod (request_add\<lparr>params_id := ''x1''\<rparr>) db_two_methods)
       = Inr (Response 200 True None)
   \<and> paymentMethods db_default_deleted = [method_x2]
   \<and> countOwned ''b1'' ''Booker'' (paymentMethods db_default_deleted) = 1
   \<and> length (filter isDefault (paymentMethods db_default_deleted)) = 0"
  by (simp add: db_default_deleted_eq db_two_methods_eq)
     (simp add: deletePaymentMethod_def request_add_def request_r1_def booker_b1_def
        db_empty_def requesterId_def countOwned_def method_x1_def method_x2_def findById_def)

text \<open>
  C7, as claimed: deleting an owner's only method is rejected with Conflict. The guard is
  taken only for a default method: the only method left above is not the default, and its
  deletion is accepted. Where the guard is taken, the answer is 400, not 409.
\<close>

theorem delete_only_method_counterexample:
  "paymentMethods db_default_deleted = [method_x2]
   \<and> countOwned ''b1'' ''Booker'' (paymentMethods db_default_deleted) = 1
   \<and> deletePaymentMethod (request_add\<lparr>params_id := ''x2''\<rparr>) db_default_deleted
       = (Inr (Response 200 True None), db_empty)
   \<and> paymentMethods db_one_method = [method_x1]
   \<and> fst (deletePaymentMethod (request_add\<lparr>params_id := ''x1''\<rparr>) db_one_method)
       = Inr (Response 400 False None)"
  by (simp add: db_default_deleted_eq db_one_method_eq)
     (simp add: deletePaymentMethod_def request_add_def request_r1_def booker_b1_def
        db_empty_def requesterId_def countOwned_def method_x1_def method_x2_def findById_def)

text \<open>
  C7, amended. The owner's deletion of the default method, when it is the owner's only
  method, is answered 400 and nothing is written; the owner's deletion of a method that is
  not the default, when the owner has several, is answered 200, removes that method and
  leaves every other stored method as it was, the default one included.
\<close>

theorem deletePaymentMethod_guard:
  assumes "user req = Some u"
    and "requesterId u = Some userId"
    and "findById pm_id (paymentMethods s) (params_id req) = Some m"
    and "pm_user m = userId"
  shows "(isDefault m \<and> countOwned userId (userModel m) (paymentMethods s) \<le> 1 \<longrightarrow>
            deletePaymentMethod req s = (Inr (Response 400 False None), s))
       \<and> (\<not> isDefault m \<and> countOwned userId (userModel m) (paymentMethods s) > 1 \<longrightarrow>
            fst (deletePaymentMethod req s) = Inr (Response 200 True None)
          \<and> paymentMethods (snd (deletePaymentMethod req s))
              = deleteOne pm_id (params_id req) (paymentMethods s)
          \<and> length (paymentMethods (snd (deletePaymentMethod req s))) + 1
              = length (paymentMethods s)
          \<and> (\<forall>i. i \<noteq> params_id req \<longrightarrow>
                findById pm_id (paymentMethods (snd (deletePaymentMethod req s))) i
                  = findById pm_id (paymentMethods s) i))"
proof -
  have id: "pm_id m = params_id req"
    using assms(3) by (rule findById_Some_id)
  have rejected: "deletePaymentMethod req s = (Inr (Response 400 False None), s)"
    if "isDefault m" and "countOwned userId (userModel m) (paymentMethods s) \<le> 1"
    using that assms by (simp add: deletePaymentMethod_def)
  have deleted: "deletePaymentMethod req s
                   = (Inr (Response 200 True None),
                      s\<lparr>paymentMethods := deleteOne pm_id (params_id req) (paymentMethods s)\<rparr>)"
    if "\<not> isDefault m"
    using that assms id by (simp add: deletePaymentMethod_def)
  show ?thesis
    using rejected deleted length_deleteOne [OF assms(3)]
      findById_deleteOne_other [of _ "params_id req" pm_id "paymentMethods s"]
    by auto
qed

theorem deletePaymentMethod_guard_witness:
  "deletePaymentMethod (request_add\<lparr>params_id := ''x1''\<rparr>) db_one_method
     = (Inr (Response 400 False None), db_one_method)
   \<and> fst (deletePaymentMethod (request_add\<lparr>params_id := ''x2''\<rparr>) db_two_methods)
       = Inr (Response 200 True None)
   \<and> findById pm_id
        (paymentMethods (snd (deletePaymentMethod (request_add\<lparr>params_id := ''x2''\<rparr>)
           db_two_methods))) ''x1''
       = Some method_x1
   \<and> isDefault method_x1"
proof -
  have u: "user (request_add\<lparr>params_id := ''x1''\<rparr>) = Some booker_b1"
          "user (request_add\<lparr>params_id := ''x2''\<rparr>) = Some booker_b1"
    by (simp_all add: request_add_def request_r1_def)
  have b1: "requesterId booker_b1 = Some ''b1''"
    by (simp add: requesterId_def booker_b1_def)
  have f1: "findById pm_id (paymentMethods db_one_method)
              (params_id (request_add\<lparr>params_id := ''x1''\<rparr>)) = Some method_x1"
    by (simp add: db_one_method_eq findById_def method_x1_def)
  have f2: "findById pm_id (paymentMethods db_two_methods)
              (params_id (request_add\<lparr>params_id := ''x2''\<rparr>)) = Some method_x2"
    by (simp add: db_two_methods_eq findById_def method_x1_def method_x2_def)
  have own: "pm_user method_x1 = ''b1''" "pm_user method_x2 = ''b1''"
    by (simp_all add: method_x1_def method_x2_def)
  have sole: "isDefault method_x1
              \<and> countOwned ''b1'' (userModel method_x1) (paymentMethods db_one_method) \<le> 1"
    by (simp add: db_one_method_eq countOwned_def method_x1_def)
  have several: "\<not> isDefault method_x2
              \<and> countOwned ''b1'' (userModel method_x2) (paymentMethods db_two_methods) > 1"
    by (simp add: db_two_methods_eq countOwned_def method_x1_def method_x2_def)
  have kept: "findById pm_id (paymentMethods db_two_methods) ''x1'' = Some method_x1"
    by (simp add: db_two_methods_eq findById_def method_x1_def)
  from deletePaymentMethod_guard [OF u(1) b1 f1 own(1)] sole
  have "deletePaymentMethod (request_add\<lparr>params_id := ''x1''\<rparr>) db_one_method
          = (Inr (Response 400 False None), db_one_method)"
    by blast
  moreover
  note g = deletePaymentMethod_guard [OF u(2) b1 f2 own(2), THEN conjunct2, THEN mp, OF several]
  have "fst (deletePaymentMethod (request_add\<lparr>params_id := ''x2''\<rparr>) db_two_methods)
          = Inr (Response 200 True None)"
    using g by blast
  moreover
  have "findById pm_id
          (paymentMethods (snd (deletePaymentMethod (request_add\<lparr>params_id := ''x2''\<rparr>)
             db_two_methods))) ''x1''
         = Some method_x1"
    using g [THEN conjunct2, THEN conjunct2, THEN conjunct2, THEN spec, of "''x1''"] kept
    by simp
  ultimately show ?thesis
    using sole by blast
qed


end
